theory Spec2Isabelle
  imports Main "HOL-Library.Word"
begin

section \<open>Python values, exceptions and the module's collaborators\<close>

text \<open>
  The codec of \<^verbatim>\<open>callosum/rpc/message.py\<close> is dynamically typed: whatever the
  unpacker returns is indexed, tested for truth and stored in the message without a
  check. The values that can flow through it are modelled by one datatype. A dictionary
  is an association list whose first binding of a key is the one that counts. Floats are
  left out of the universe.
\<close>

type_synonym byte = "8 word"
type_synonym bytes = "byte list"

datatype pyval =
    PNone
  | PBool bool
  | PInt int
  | PStr string
  | PBytes bytes
  | PTuple "pyval list"
  | PList "pyval list"
  | PDict "(pyval \<times> pyval) list"

datatype error =
    ConfigurationError
  | KeyError
  | TypeError
  | ValueError
  | AttributeError
  | OtherError string

text \<open>Sequencing of steps that may raise: the first exception ends the call.\<close>

definition bind_result :: "error + 'a \<Rightarrow> ('a \<Rightarrow> error + 'b) \<Rightarrow> error + 'b" where
  "bind_result r f = (case r of Inl e \<Rightarrow> Inl e | Inr x \<Rightarrow> f x)"

text \<open>Truth value of an object, as \<^verbatim>\<open>if x:\<close> and \<^verbatim>\<open>not x\<close> compute it.\<close>

fun py_bool :: "pyval \<Rightarrow> bool" where
  "py_bool PNone = False"
| "py_bool (PBool b) = b"
| "py_bool (PInt n) = (n \<noteq> 0)"
| "py_bool (PStr s) = (s \<noteq> [])"
| "py_bool (PBytes b) = (b \<noteq> [])"
| "py_bool (PTuple xs) = (xs \<noteq> [])"
| "py_bool (PList xs) = (xs \<noteq> [])"
| "py_bool (PDict kvs) = (kvs \<noteq> [])"

text \<open>
  \<^verbatim>\<open>x['key']\<close> with a string key: a dictionary raises KeyError when the key is
  missing; every other value raises TypeError (sequences want integer indices, the rest
  is not subscriptable).
\<close>

fun py_getitem :: "pyval \<Rightarrow> string \<Rightarrow> error + pyval" where
  "py_getitem (PDict kvs) k =
     (case map_of kvs (PStr k) of None \<Rightarrow> Inl KeyError | Some v \<Rightarrow> Inr v)"
| "py_getitem v k = Inl TypeError"

text \<open>
  \<^verbatim>\<open>f(*x)\<close>: the positional arguments obtained by iterating over \<^verbatim>\<open>x\<close>.
  A dictionary yields its keys (each once, in the order of their first binding), a string
  its characters, a bytes object its octets as integers; None, booleans and integers are
  not iterable.
\<close>

fun py_star :: "pyval \<Rightarrow> error + pyval list" where
  "py_star (PTuple xs) = Inr xs"
| "py_star (PList xs) = Inr xs"
| "py_star (PDict kvs) = Inr (rev (remdups (rev (map fst kvs))))"
| "py_star (PStr s) = Inr (map (\<lambda>c. PStr [c]) s)"
| "py_star (PBytes b) = Inr (map (\<lambda>w. PInt (uint w)) b)"
| "py_star v = Inl TypeError"

text \<open>
  The module imports \<^verbatim>\<open>mpackb\<close> and \<^verbatim>\<open>munpackb\<close> from
  \<^verbatim>\<open>callosum.serialize\<close> and tries to import \<^verbatim>\<open>snappy\<close>; none of the
  three is part of the module. They are parameters of the model. Each may raise.
  \<^verbatim>\<open>has_snappy\<close> is true exactly when the import of \<^verbatim>\<open>snappy\<close> succeeded.
\<close>

record snappy_module =
  compress :: "bytes \<Rightarrow> error + bytes"
  decompress :: "bytes \<Rightarrow> error + bytes"

record env =
  mpackb :: "pyval \<Rightarrow> error + bytes"
  munpackb :: "pyval \<Rightarrow> error + pyval"
  snappy :: "snappy_module option"

definition has_snappy :: "env \<Rightarrow> bool" where
  "has_snappy e = (case snappy e of None \<Rightarrow> False | Some m \<Rightarrow> True)"

section \<open>Metadata\<close>

text \<open>
  The five attrs classes. attrs generates an initialiser that takes one positional
  argument per field and checks neither type: the fields hold whatever they are given.
\<close>

datatype Metadata =
    FunctionMetadata
  | ResultMetadata
  | StreamMetadata pyval pyval
  | ErrorMetadata pyval pyval
  | NullMetadata

datatype metadata_cls =
    FunctionMetadata_cls
  | ResultMetadata_cls
  | StreamMetadata_cls
  | ErrorMetadata_cls
  | NullMetadata_cls

fun type_of :: "Metadata \<Rightarrow> metadata_cls" where
  "type_of FunctionMetadata = FunctionMetadata_cls"
| "type_of ResultMetadata = ResultMetadata_cls"
| "type_of (StreamMetadata resource_name len) = StreamMetadata_cls"
| "type_of (ErrorMetadata name traceback) = ErrorMetadata_cls"
| "type_of NullMetadata = NullMetadata_cls"

text \<open>\<^verbatim>\<open>[getattr(self, f.name) for f in attr.fields(cls)]\<close>: the field values in
  declaration order.\<close>

fun field_values :: "Metadata \<Rightarrow> pyval list" where
  "field_values FunctionMetadata = []"
| "field_values ResultMetadata = []"
| "field_values (StreamMetadata resource_name len) = [resource_name, len]"
| "field_values (ErrorMetadata name traceback) = [name, traceback]"
| "field_values NullMetadata = []"

text \<open>\<^verbatim>\<open>cls(*args)\<close>: a wrong number of arguments raises TypeError.\<close>

fun new_metadata :: "metadata_cls \<Rightarrow> pyval list \<Rightarrow> error + Metadata" where
  "new_metadata FunctionMetadata_cls [] = Inr FunctionMetadata"
| "new_metadata ResultMetadata_cls [] = Inr ResultMetadata"
| "new_metadata StreamMetadata_cls [resource_name, len] = Inr (StreamMetadata resource_name len)"
| "new_metadata ErrorMetadata_cls [name, traceback] = Inr (ErrorMetadata name traceback)"
| "new_metadata NullMetadata_cls [] = Inr NullMetadata"
| "new_metadata cls args = Inl TypeError"

text \<open>\<^verbatim>\<open>len(attr.fields(cls))\<close>: the number of fields a class declares.\<close>

fun field_count :: "metadata_cls \<Rightarrow> nat" where
  "field_count FunctionMetadata_cls = 0"
| "field_count ResultMetadata_cls = 0"
| "field_count StreamMetadata_cls = 2"
| "field_count ErrorMetadata_cls = 2"
| "field_count NullMetadata_cls = 0"

text \<open>\<^verbatim>\<open>TupleEncodingMixin.decode\<close> and \<^verbatim>\<open>TupleEncodingMixin.encode\<close>.\<close>

definition TupleEncodingMixin_decode :: "env \<Rightarrow> metadata_cls \<Rightarrow> pyval \<Rightarrow> error + Metadata option" where
  "TupleEncodingMixin_decode e cls buffer =
     (if \<not> py_bool buffer then Inr None
      else bind_result (munpackb e buffer) (\<lambda>unpacked.
           bind_result (py_star unpacked) (\<lambda>args.
           bind_result (new_metadata cls args) (\<lambda>obj.
           Inr (Some obj)))))"

definition TupleEncodingMixin_encode :: "env \<Rightarrow> Metadata \<Rightarrow> error + bytes" where
  "TupleEncodingMixin_encode e self = mpackb e (PList (field_values self))"

section \<open>Message types and the type-to-class table\<close>

datatype RPCMessageTypes = FUNCTION | STREAM | RESULT | FAILURE | ERROR | CANCEL

fun int_of :: "RPCMessageTypes \<Rightarrow> int" where
  "int_of FUNCTION = 0"
| "int_of STREAM = 1"
| "int_of RESULT = 2"
| "int_of FAILURE = 3"
| "int_of ERROR = 4"
| "int_of CANCEL = 5"

text \<open>
  \<^verbatim>\<open>RPCMessageTypes(v)\<close>: the member whose value equals \<^verbatim>\<open>v\<close>, ValueError when
  there is none. The lookup goes by Python equality, under which \<^verbatim>\<open>False == 0\<close> and
  \<^verbatim>\<open>True == 1\<close>.
\<close>

fun int_value :: "pyval \<Rightarrow> int option" where
  "int_value (PInt n) = Some n"
| "int_value (PBool b) = Some (if b then 1 else 0)"
| "int_value v = None"

definition RPCMessageTypes_call :: "pyval \<Rightarrow> error + RPCMessageTypes" where
  "RPCMessageTypes_call v =
     (case int_value v of
        None \<Rightarrow> Inl ValueError
      | Some n \<Rightarrow>
          (if n = 0 then Inr FUNCTION
           else if n = 1 then Inr STREAM
           else if n = 2 then Inr RESULT
           else if n = 3 then Inr FAILURE
           else if n = 4 then Inr ERROR
           else if n = 5 then Inr CANCEL
           else Inl ValueError))"

definition metadata_types :: "metadata_cls list" where
  "metadata_types =
     [FunctionMetadata_cls,
      StreamMetadata_cls,
      ResultMetadata_cls,
      ErrorMetadata_cls,
      ErrorMetadata_cls,
      NullMetadata_cls]"

text \<open>\<^verbatim>\<open>metadata_types[msgtype]\<close>: a member's value is always a valid index.\<close>

definition metadata_type_for :: "RPCMessageTypes \<Rightarrow> metadata_cls" where
  "metadata_type_for msgtype = metadata_types ! nat (int_of msgtype)"

section \<open>The message\<close>

text \<open>The attribute \<^verbatim>\<open>method\<close> is the field \<open>method_name\<close>: the bare word is
  reserved in theory text.\<close>

record RPCMessage =
  msgtype :: RPCMessageTypes
  method_name :: pyval
  order_key :: pyval
  seq_id :: pyval
  metadata :: "Metadata option"
  body :: pyval

definition request_id :: "RPCMessage \<Rightarrow> pyval \<times> pyval \<times> pyval" where
  "request_id self = (method_name self, order_key self, seq_id self)"

text \<open>
  The builders. \<^verbatim>\<open>failure\<close> and \<^verbatim>\<open>error\<close> read the interpreter's current
  exception; it is passed here as the pair of the exception class's name and the text
  that \<^verbatim>\<open>traceback.format_exc()\<close> returns, or None when no exception is being
  handled (then \<^verbatim>\<open>exc_info[0]\<close> is None and reading its name raises
  AttributeError).
\<close>

type_synonym exc_info = "(string \<times> string) option"

definition result :: "RPCMessage \<Rightarrow> pyval \<Rightarrow> RPCMessage" where
  "result request result_body =
     \<lparr>msgtype = RESULT, method_name = method_name request,
      order_key = order_key request, seq_id = seq_id request,
      metadata = Some ResultMetadata,
      body = result_body\<rparr>"

definition failure :: "exc_info \<Rightarrow> RPCMessage \<Rightarrow> error + RPCMessage" where
  "failure exc request =
     (case exc of
        None \<Rightarrow> Inl AttributeError
      | Some (name, tb) \<Rightarrow>
          Inr \<lparr>msgtype = FAILURE, method_name = method_name request,
               order_key = order_key request, seq_id = seq_id request,
               metadata = Some (ErrorMetadata (PStr name) (PStr tb)),
               body = PNone\<rparr>)"

definition error :: "exc_info \<Rightarrow> RPCMessage \<Rightarrow> error + RPCMessage" where
  "error exc request =
     (case exc of
        None \<Rightarrow> Inl AttributeError
      | Some (name, tb) \<Rightarrow>
          Inr \<lparr>msgtype = ERROR, method_name = method_name request,
               order_key = order_key request, seq_id = seq_id request,
               metadata = Some (ErrorMetadata (PStr name) (PStr tb)),
               body = PNone\<rparr>)"

definition cancel :: "RPCMessage \<Rightarrow> RPCMessage" where
  "cancel request =
     \<lparr>msgtype = CANCEL, method_name = method_name request,
      order_key = order_key request, seq_id = seq_id request,
      metadata = Some NullMetadata, body = PNone\<rparr>"

section \<open>The wire codec\<close>

text \<open>The header dictionary of \<^verbatim>\<open>encode\<close>, in the order the source writes it.\<close>

definition header_of :: "RPCMessage \<Rightarrow> bool \<Rightarrow> pyval" where
  "header_of self compress_flag =
     PDict [(PStr ''type'', PInt (int_of (msgtype self))),
            (PStr ''meth'', method_name self),
            (PStr ''okey'', order_key self),
            (PStr ''seq'', seq_id self),
            (PStr ''zip'', PBool compress_flag)]"

definition decode ::
  "env \<Rightarrow> bytes \<times> bytes \<Rightarrow> (pyval \<Rightarrow> error + pyval) \<Rightarrow> error + RPCMessage" where
  "decode e raw_msg deserializer =
     bind_result (munpackb e (PBytes (fst raw_msg))) (\<lambda>header.
     bind_result (py_getitem header ''type'') (\<lambda>type_field.
     bind_result (RPCMessageTypes_call type_field) (\<lambda>mtype.
     bind_result (py_getitem header ''zip'') (\<lambda>compressed.
     bind_result
       (if py_bool compressed then
          (case snappy e of
             None \<Rightarrow> Inl ConfigurationError
           | Some lib \<Rightarrow> decompress lib (snd raw_msg))
        else Inr (snd raw_msg)) (\<lambda>raw_data.
     bind_result (munpackb e (PBytes raw_data)) (\<lambda>data.
     bind_result (py_getitem data ''meta'') (\<lambda>meta.
     bind_result (TupleEncodingMixin_decode e (metadata_type_for mtype) meta) (\<lambda>md.
     bind_result (py_getitem data ''body'') (\<lambda>body_field.
     bind_result
       (if mtype \<in> {FUNCTION, RESULT} then deserializer body_field
        else Inr body_field) (\<lambda>b.
     bind_result (py_getitem header ''meth'') (\<lambda>meth.
     bind_result (py_getitem header ''okey'') (\<lambda>okey.
     bind_result (py_getitem header ''seq'') (\<lambda>seq.
     Inr \<lparr>msgtype = mtype, method_name = meth, order_key = okey, seq_id = seq,
          metadata = md, body = b\<rparr>)))))))))))))"

definition encode ::
  "env \<Rightarrow> RPCMessage \<Rightarrow> (pyval \<Rightarrow> error + pyval) \<Rightarrow> bool \<Rightarrow> error + bytes \<times> bytes" where
  "encode e self serializer compress_flag =
     bind_result
       (case metadata self of
          None \<Rightarrow> Inr []
        | Some md \<Rightarrow> TupleEncodingMixin_encode e md) (\<lambda>meta.
     bind_result (mpackb e (header_of self compress_flag)) (\<lambda>serialized_header.
     bind_result
       (if msgtype self \<in> {FUNCTION, RESULT} then serializer (body self)
        else Inr (body self)) (\<lambda>b.
     bind_result (mpackb e (PDict [(PStr ''meta'', PBytes meta), (PStr ''body'', b)]))
       (\<lambda>serialized_data.
     if compress_flag then
       (case snappy e of
          None \<Rightarrow> Inl ConfigurationError
        | Some lib \<Rightarrow>
            bind_result (compress lib serialized_data) (\<lambda>compressed_data.
            Inr (serialized_header, compressed_data)))
     else Inr (serialized_header, serialized_data)))))"

section \<open>A concrete environment for worked examples\<close>

text \<open>
  The docstring of \<^verbatim>\<open>TupleEncodingMixin\<close> names the packer's format: msgpack.
  \<open>fix_pack\<close> and \<open>fix_unpack\<close> implement its short forms (nil, booleans,
  positive fixint, fixstr, bin 8, fixarray, fixmap); arrays are unpacked as tuples.
  Anything longer or larger is refused with ValueError. They serve as the packer of the
  examples below; the general theorems do not depend on them.
\<close>

function (sequential) fix_pack :: "pyval \<Rightarrow> error + bytes"
and fix_pack_seq :: "pyval list \<Rightarrow> error + bytes"
and fix_pack_items :: "(pyval \<times> pyval) list \<Rightarrow> error + bytes" where
  "fix_pack PNone = Inr [0xc0]"
| "fix_pack (PBool b) = Inr [if b then 0xc3 else 0xc2]"
| "fix_pack (PInt n) =
     (if 0 \<le> n \<and> n < 128 then Inr [word_of_int n] else Inl ValueError)"
| "fix_pack (PStr s) =
     (if length s < 32 then Inr ((0xa0 + of_nat (length s)) # map of_char s)
      else Inl ValueError)"
| "fix_pack (PBytes b) =
     (if length b < 256 then Inr (0xc4 # of_nat (length b) # b) else Inl ValueError)"
| "fix_pack (PTuple xs) =
     (if length xs < 16
      then bind_result (fix_pack_seq xs) (\<lambda>bs. Inr ((0x90 + of_nat (length xs)) # bs))
      else Inl ValueError)"
| "fix_pack (PList xs) =
     (if length xs < 16
      then bind_result (fix_pack_seq xs) (\<lambda>bs. Inr ((0x90 + of_nat (length xs)) # bs))
      else Inl ValueError)"
| "fix_pack (PDict kvs) =
     (if length kvs < 16
      then bind_result (fix_pack_items kvs) (\<lambda>bs. Inr ((0x80 + of_nat (length kvs)) # bs))
      else Inl ValueError)"
| "fix_pack_seq [] = Inr []"
| "fix_pack_seq (x # xs) =
     bind_result (fix_pack x) (\<lambda>b. bind_result (fix_pack_seq xs) (\<lambda>bs. Inr (b @ bs)))"
| "fix_pack_items [] = Inr []"
| "fix_pack_items (kv # kvs) =
     bind_result (fix_pack (fst kv)) (\<lambda>kb.
     bind_result (fix_pack (snd kv)) (\<lambda>vb.
     bind_result (fix_pack_items kvs) (\<lambda>bs. Inr (kb @ vb @ bs))))"
  by pat_completeness auto
termination
  by (relation "measure (case_sum (\<lambda>v. 2 * size v)
        (case_sum (\<lambda>xs. 2 * size (PList xs) - 1) (\<lambda>kvs. 2 * size (PDict kvs) - 1)))")
     auto

text \<open>The parser takes fuel, one unit for each level of nesting; \<open>fix_unpack\<close> gives it
  the length of the input.\<close>

fun fix_parse :: "nat \<Rightarrow> bytes \<Rightarrow> error + pyval \<times> bytes"
and fix_parse_seq :: "nat \<Rightarrow> nat \<Rightarrow> bytes \<Rightarrow> error + pyval list \<times> bytes"
and fix_parse_items :: "nat \<Rightarrow> nat \<Rightarrow> bytes \<Rightarrow> error + (pyval \<times> pyval) list \<times> bytes" where
  "fix_parse 0 bs = Inl ValueError"
| "fix_parse (Suc fuel) [] = Inl ValueError"
| "fix_parse (Suc fuel) (t # bs) =
     (let n = unat t in
      if n < 0x80 then Inr (PInt (int n), bs)
      else if n < 0x90 then
        bind_result (fix_parse_items fuel (n - 0x80) bs) (\<lambda>(kvs, r). Inr (PDict kvs, r))
      else if n < 0xa0 then
        bind_result (fix_parse_seq fuel (n - 0x90) bs) (\<lambda>(xs, r). Inr (PTuple xs, r))
      else if n < 0xc0 then
        (if length bs < n - 0xa0 then Inl ValueError
         else Inr (PStr (map (\<lambda>w. char_of (unat w)) (take (n - 0xa0) bs)),
                   drop (n - 0xa0) bs))
      else if n = 0xc0 then Inr (PNone, bs)
      else if n = 0xc2 then Inr (PBool False, bs)
      else if n = 0xc3 then Inr (PBool True, bs)
      else if n = 0xc4 then
        (case bs of
           [] \<Rightarrow> Inl ValueError
         | l # r \<Rightarrow>
             if length r < unat l then Inl ValueError
             else Inr (PBytes (take (unat l) r), drop (unat l) r))
      else Inl ValueError)"
| "fix_parse_seq fuel 0 bs = Inr ([], bs)"
| "fix_parse_seq fuel (Suc k) bs =
     bind_result (fix_parse fuel bs) (\<lambda>(x, r).
     bind_result (fix_parse_seq fuel k r) (\<lambda>(xs, r'). Inr (x # xs, r')))"
| "fix_parse_items fuel 0 bs = Inr ([], bs)"
| "fix_parse_items fuel (Suc k) bs =
     bind_result (fix_parse fuel bs) (\<lambda>(key, r).
     bind_result (fix_parse fuel r) (\<lambda>(v, r').
     bind_result (fix_parse_items fuel k r') (\<lambda>(kvs, r''). Inr ((key, v) # kvs, r''))))"

definition fix_unpack :: "pyval \<Rightarrow> error + pyval" where
  "fix_unpack buffer =
     (case buffer of
        PBytes b \<Rightarrow>
          bind_result (fix_parse (length b) b) (\<lambda>(v, r).
          if r = [] then Inr v else Inl ValueError)
      | _ \<Rightarrow> Inl TypeError)"

text \<open>
  A compressor for the examples: the literal-only streams of the Snappy format, for
  inputs of at most 60 bytes (the length, one literal tag, the bytes).
\<close>

definition lit_compress :: "bytes \<Rightarrow> error + bytes" where
  "lit_compress b =
     (if b = [] then Inr [0]
      else if length b \<le> 60 then Inr (of_nat (length b) # of_nat (4 * (length b - 1)) # b)
      else Inl ValueError)"

definition lit_decompress :: "bytes \<Rightarrow> error + bytes" where
  "lit_decompress z =
     (case z of
        [] \<Rightarrow> Inl ValueError
      | [n] \<Rightarrow> if n = 0 then Inr [] else Inl ValueError
      | n # t # b \<Rightarrow>
          if 0 < unat n \<and> unat n \<le> 60 \<and> length b = unat n \<and> unat t = 4 * (unat n - 1)
          then Inr b else Inl ValueError)"

definition plain_env :: env where
  "plain_env = \<lparr>mpackb = fix_pack, munpackb = fix_unpack, snappy = None\<rparr>"

definition snappy_env :: env where
  "snappy_env =
     \<lparr>mpackb = fix_pack, munpackb = fix_unpack,
      snappy = Some \<lparr>compress = lit_compress, decompress = lit_decompress\<rparr>\<rparr>"

text \<open>The value codec of the examples packs the user's value with the same packer.\<close>

definition ex_serializer :: "pyval \<Rightarrow> error + pyval" where
  "ex_serializer v = bind_result (fix_pack v) (\<lambda>b. Inr (PBytes b))"

definition ex_deserializer :: "pyval \<Rightarrow> error + pyval" where
  "ex_deserializer b = fix_unpack b"

definition call_msg :: RPCMessage where
  "call_msg =
     \<lparr>msgtype = FUNCTION, method_name = PStr ''add'', order_key = PStr [], seq_id = PInt 1,
      metadata = Some FunctionMetadata, body = PTuple [PInt 2, PInt 3]\<rparr>"

definition stream_msg :: RPCMessage where
  "stream_msg =
     \<lparr>msgtype = STREAM, method_name = PStr ''feed'', order_key = PStr ''k'', seq_id = PInt 7,
      metadata = Some (StreamMetadata (PStr ''res'') (PInt 3)), body = PBytes [1, 2, 3]\<rparr>"

text \<open>A STREAM message that carries the metadata of an error reply: a mismatched pair.\<close>

definition mismatched_msg :: RPCMessage where
  "mismatched_msg =
     \<lparr>msgtype = STREAM, method_name = PStr ''feed'', order_key = PStr ''k'', seq_id = PInt 7,
      metadata = Some (ErrorMetadata (PStr ''E'') (PStr ''tb'')), body = PNone\<rparr>"

text \<open>The header of a FAILURE reply and a body frame without metadata, as unpacked.\<close>

definition failure_header :: pyval where
  "failure_header =
     PDict [(PStr ''type'', PInt 3), (PStr ''meth'', PStr ''f''), (PStr ''okey'', PStr []),
            (PStr ''seq'', PInt 1), (PStr ''zip'', PBool False)]"

definition bare_data :: pyval where
  "bare_data = PDict [(PStr ''meta'', PBytes []), (PStr ''body'', PNone)]"

text \<open>A header frame whose type field is 9, and what it unpacks to.\<close>

definition unknown_type_frame :: bytes where
  "unknown_type_frame =
     [0x85, 0xa4, 0x74, 0x79, 0x70, 0x65, 0x09, 0xa4, 0x6d, 0x65, 0x74, 0x68, 0xa1, 0x66,
      0xa4, 0x6f, 0x6b, 0x65, 0x79, 0xa0, 0xa3, 0x73, 0x65, 0x71, 0x01, 0xa3, 0x7a, 0x69,
      0x70, 0xc2]"

definition unknown_type_header :: pyval where
  "unknown_type_header =
     PDict [(PStr ''type'', PInt 9), (PStr ''meth'', PStr ''f''), (PStr ''okey'', PStr []),
            (PStr ''seq'', PInt 1), (PStr ''zip'', PBool False)]"

text \<open>The two frames of a RESULT reply without metadata and of an ERROR reply, and the
  header and message the latter decodes to.\<close>

definition result_frames :: "bytes \<times> bytes" where
  "result_frames =
     ([0x85, 0xa4, 0x74, 0x79, 0x70, 0x65, 0x02, 0xa4, 0x6d, 0x65, 0x74, 0x68, 0xa1, 0x66,
       0xa4, 0x6f, 0x6b, 0x65, 0x79, 0xa0, 0xa3, 0x73, 0x65, 0x71, 0x01, 0xa3, 0x7a, 0x69,
       0x70, 0xc2],
      [0x82, 0xa4, 0x6d, 0x65, 0x74, 0x61, 0xc4, 0x00, 0xa4, 0x62, 0x6f, 0x64, 0x79,
       0xc4, 0x01, 0x05])"

definition error_reply_frames :: "bytes \<times> bytes" where
  "error_reply_frames =
     ([0x85, 0xa4, 0x74, 0x79, 0x70, 0x65, 0x04, 0xa4, 0x6d, 0x65, 0x74, 0x68, 0xa1, 0x66,
       0xa4, 0x6f, 0x6b, 0x65, 0x79, 0xa0, 0xa3, 0x73, 0x65, 0x71, 0x01, 0xa3, 0x7a, 0x69,
       0x70, 0xc2],
      [0x82, 0xa4, 0x6d, 0x65, 0x74, 0x61, 0xc4, 0x06, 0x92, 0xa1, 0x45, 0xa2, 0x74, 0x62,
       0xa4, 0x62, 0x6f, 0x64, 0x79, 0xc0])"

definition error_reply_header :: pyval where
  "error_reply_header =
     PDict [(PStr ''type'', PInt 4), (PStr ''meth'', PStr ''f''), (PStr ''okey'', PStr []),
            (PStr ''seq'', PInt 1), (PStr ''zip'', PBool False)]"

definition error_reply :: RPCMessage where
  "error_reply =
     \<lparr>msgtype = ERROR, method_name = PStr ''f'', order_key = PStr [], seq_id = PInt 1,
      metadata = Some (ErrorMetadata (PStr ''E'') (PStr ''tb'')), body = PNone\<rparr>"

text \<open>The frames of the example messages: the call and the stream chunk encoded without
  compression, the stream chunk encoded with it, the header of the latter, and a header
  frame with zip set and the type 9. \<open>raising_codec\<close> is a value codec that always
  raises.\<close>

definition call_frames :: "bytes \<times> bytes" where
  "call_frames =
     ([0x85, 0xa4, 0x74, 0x79, 0x70, 0x65, 0x00, 0xa4, 0x6d, 0x65, 0x74, 0x68, 0xa3, 0x61,
       0x64, 0x64, 0xa4, 0x6f, 0x6b, 0x65, 0x79, 0xa0, 0xa3, 0x73, 0x65, 0x71, 0x01, 0xa3,
       0x7a, 0x69, 0x70, 0xc2],
      [0x82, 0xa4, 0x6d, 0x65, 0x74, 0x61, 0xc4, 0x01, 0x90, 0xa4, 0x62, 0x6f, 0x64, 0x79,
       0xc4, 0x03, 0x92, 0x02, 0x03])"

definition stream_frames :: "bytes \<times> bytes" where
  "stream_frames =
     ([0x85, 0xa4, 0x74, 0x79, 0x70, 0x65, 0x01, 0xa4, 0x6d, 0x65, 0x74, 0x68, 0xa4, 0x66,
       0x65, 0x65, 0x64, 0xa4, 0x6f, 0x6b, 0x65, 0x79, 0xa1, 0x6b, 0xa3, 0x73, 0x65, 0x71,
       0x07, 0xa3, 0x7a, 0x69, 0x70, 0xc2],
      [0x82, 0xa4, 0x6d, 0x65, 0x74, 0x61, 0xc4, 0x06, 0x92, 0xa3, 0x72, 0x65, 0x73, 0x03,
       0xa4, 0x62, 0x6f, 0x64, 0x79, 0xc4, 0x03, 0x01, 0x02, 0x03])"

definition zipped_stream_frames :: "bytes \<times> bytes" where
  "zipped_stream_frames =
     ([0x85, 0xa4, 0x74, 0x79, 0x70, 0x65, 0x01, 0xa4, 0x6d, 0x65, 0x74, 0x68, 0xa4, 0x66,
       0x65, 0x65, 0x64, 0xa4, 0x6f, 0x6b, 0x65, 0x79, 0xa1, 0x6b, 0xa3, 0x73, 0x65, 0x71,
       0x07, 0xa3, 0x7a, 0x69, 0x70, 0xc3],
      [0x18, 0x5c, 0x82, 0xa4, 0x6d, 0x65, 0x74, 0x61, 0xc4, 0x06, 0x92, 0xa3, 0x72, 0x65,
       0x73, 0x03, 0xa4, 0x62, 0x6f, 0x64, 0x79, 0xc4, 0x03, 0x01, 0x02, 0x03])"

definition zipped_stream_header :: pyval where
  "zipped_stream_header =
     PDict [(PStr ''type'', PInt 1), (PStr ''meth'', PStr ''feed''), (PStr ''okey'', PStr ''k''),
            (PStr ''seq'', PInt 7), (PStr ''zip'', PBool True)]"

definition zipped_unknown_type_frame :: bytes where
  "zipped_unknown_type_frame =
     [0x85, 0xa4, 0x74, 0x79, 0x70, 0x65, 0x09, 0xa4, 0x6d, 0x65, 0x74, 0x68, 0xa1, 0x66,
      0xa4, 0x6f, 0x6b, 0x65, 0x79, 0xa0, 0xa3, 0x73, 0x65, 0x71, 0x01, 0xa3, 0x7a, 0x69,
      0x70, 0xc3]"

definition raising_codec :: "pyval \<Rightarrow> error + pyval" where
  "raising_codec v = Inl TypeError"

text \<open>The frames \<open>encode\<close> returns for the mismatched message, the message they decode
  to, and a FAILURE reply without metadata with its frames.\<close>

definition mismatched_frames :: "bytes \<times> bytes" where
  "mismatched_frames =
     ([0x85, 0xa4, 0x74, 0x79, 0x70, 0x65, 0x01, 0xa4, 0x6d, 0x65, 0x74, 0x68, 0xa4, 0x66,
       0x65, 0x65, 0x64, 0xa4, 0x6f, 0x6b, 0x65, 0x79, 0xa1, 0x6b, 0xa3, 0x73, 0x65, 0x71,
       0x07, 0xa3, 0x7a, 0x69, 0x70, 0xc2],
      [0x82, 0xa4, 0x6d, 0x65, 0x74, 0x61, 0xc4, 0x06, 0x92, 0xa1, 0x45, 0xa2, 0x74, 0x62,
       0xa4, 0x62, 0x6f, 0x64, 0x79, 0xc0])"

definition reread_msg :: RPCMessage where
  "reread_msg =
     \<lparr>msgtype = STREAM, method_name = PStr ''feed'', order_key = PStr ''k'', seq_id = PInt 7,
      metadata = Some (StreamMetadata (PStr ''E'') (PStr ''tb'')), body = PNone\<rparr>"

definition bare_failure_msg :: RPCMessage where
  "bare_failure_msg =
     \<lparr>msgtype = FAILURE, method_name = PStr ''f'', order_key = PStr [], seq_id = PInt 1,
      metadata = None, body = PNone\<rparr>"

definition bare_failure_frames :: "bytes \<times> bytes" where
  "bare_failure_frames =
     ([0x85, 0xa4, 0x74, 0x79, 0x70, 0x65, 0x03, 0xa4, 0x6d, 0x65, 0x74, 0x68, 0xa1, 0x66,
       0xa4, 0x6f, 0x6b, 0x65, 0x79, 0xa0, 0xa3, 0x73, 0x65, 0x71, 0x01, 0xa3, 0x7a, 0x69,
       0x70, 0xc2],
      [0x82, 0xa4, 0x6d, 0x65, 0x74, 0x61, 0xc4, 0x00, 0xa4, 0x62, 0x6f, 0x64, 0x79, 0xc0])"

text \<open>A FUNCTION message that carries the metadata of an error reply, and the frames
  \<open>encode\<close> returns for it.\<close>

definition mismatched_call_msg :: RPCMessage where
  "mismatched_call_msg =
     \<lparr>msgtype = FUNCTION, method_name = PStr ''add'', order_key = PStr [], seq_id = PInt 1,
      metadata = Some (ErrorMetadata (PStr ''E'') (PStr ''tb'')), body = PTuple [PInt 2, PInt 3]\<rparr>"

definition mismatched_call_frames :: "bytes \<times> bytes" where
  "mismatched_call_frames =
     ([0x85, 0xa4, 0x74, 0x79, 0x70, 0x65, 0x00, 0xa4, 0x6d, 0x65, 0x74, 0x68, 0xa3, 0x61,
       0x64, 0x64, 0xa4, 0x6f, 0x6b, 0x65, 0x79, 0xa0, 0xa3, 0x73, 0x65, 0x71, 0x01, 0xa3,
       0x7a, 0x69, 0x70, 0xc2],
      [0x82, 0xa4, 0x6d, 0x65, 0x74, 0x61, 0xc4, 0x06, 0x92, 0xa1, 0x45, 0xa2, 0x74, 0x62,
       0xa4, 0x62, 0x6f, 0x64, 0x79, 0xc4, 0x03, 0x92, 0x02, 0x03])"

section \<open>Basic facts\<close>

lemma bind_result_Inr [simp]: "bind_result (Inr x) f = f x"
  by (simp add: bind_result_def)

lemma bind_result_Inl [simp]: "bind_result (Inl e) f = Inl e"
  by (simp add: bind_result_def)

lemma bind_result_eq_Inr:
  "bind_result r f = Inr y \<longleftrightarrow> (\<exists>x. r = Inr x \<and> f x = Inr y)"
  by (cases r) simp_all

lemma metadata_type_for_simps [simp]:
  "metadata_type_for FUNCTION = FunctionMetadata_cls"
  "metadata_type_for STREAM = StreamMetadata_cls"
  "metadata_type_for RESULT = ResultMetadata_cls"
  "metadata_type_for FAILURE = ErrorMetadata_cls"
  "metadata_type_for ERROR = ErrorMetadata_cls"
  "metadata_type_for CANCEL = NullMetadata_cls"
  by (simp_all add: metadata_type_for_def metadata_types_def)

lemma new_metadata_type_of:
  "new_metadata cls args = Inr md \<Longrightarrow> type_of md = cls"
  by (induction cls args rule: new_metadata.induct) auto

lemma new_metadata_field_values:
  "new_metadata (type_of md) (field_values md) = Inr md"
  by (cases md) simp_all

lemma TupleEncodingMixin_decode_type_of:
  "TupleEncodingMixin_decode e cls buffer = Inr (Some md) \<Longrightarrow> type_of md = cls"
  by (auto simp: TupleEncodingMixin_decode_def bind_result_eq_Inr
           split: if_splits dest: new_metadata_type_of)

lemma TupleEncodingMixin_decode_empty:
  "TupleEncodingMixin_decode e cls (PBytes []) = Inr None"
  by (simp add: TupleEncodingMixin_decode_def)

text \<open>What a successful call of \<open>decode\<close> and of \<open>encode\<close> went through.\<close>

lemma decode_Inr_iff:
  "decode e raw deserializer = Inr m' \<longleftrightarrow>
     (\<exists>header type_field compressed raw_data data meta body_field.
        munpackb e (PBytes (fst raw)) = Inr header \<and>
        py_getitem header ''type'' = Inr type_field \<and>
        RPCMessageTypes_call type_field = Inr (msgtype m') \<and>
        py_getitem header ''zip'' = Inr compressed \<and>
        (if py_bool compressed then
           (case snappy e of None \<Rightarrow> Inl ConfigurationError
            | Some lib \<Rightarrow> decompress lib (snd raw))
         else Inr (snd raw)) = Inr raw_data \<and>
        munpackb e (PBytes raw_data) = Inr data \<and>
        py_getitem data ''meta'' = Inr meta \<and>
        TupleEncodingMixin_decode e (metadata_type_for (msgtype m')) meta = Inr (metadata m') \<and>
        py_getitem data ''body'' = Inr body_field \<and>
        (if msgtype m' \<in> {FUNCTION, RESULT} then deserializer body_field
         else Inr body_field) = Inr (body m') \<and>
        py_getitem header ''meth'' = Inr (method_name m') \<and>
        py_getitem header ''okey'' = Inr (order_key m') \<and>
        py_getitem header ''seq'' = Inr (seq_id m'))"
  (is "?L \<longleftrightarrow> ?R")
proof
  assume ?L
  then show ?R
    unfolding decode_def bind_result_eq_Inr
    apply (elim exE conjE)
    apply (simp only: sum.inject)
    apply hypsubst
    apply (simp only: RPCMessage.select_convs)
    apply (intro exI conjI; (rule refl | assumption))
    done
next
  assume ?R
  then show ?L
    unfolding decode_def
    by (elim exE conjE) simp
qed

lemma encode_Inr_iff:
  "encode e m serializer c = Inr raw \<longleftrightarrow>
     (\<exists>meta b serialized_data.
        (case metadata m of None \<Rightarrow> Inr [] | Some md \<Rightarrow> TupleEncodingMixin_encode e md) = Inr meta \<and>
        mpackb e (header_of m c) = Inr (fst raw) \<and>
        (if msgtype m \<in> {FUNCTION, RESULT} then serializer (body m) else Inr (body m)) = Inr b \<and>
        mpackb e (PDict [(PStr ''meta'', PBytes meta), (PStr ''body'', b)]) = Inr serialized_data \<and>
        (if c then
           (case snappy e of None \<Rightarrow> False
            | Some lib \<Rightarrow> compress lib serialized_data = Inr (snd raw))
         else snd raw = serialized_data))"
  (is "?L \<longleftrightarrow> ?R")
proof
  assume ?L
  then show ?R
    unfolding encode_def bind_result_eq_Inr
    by (elim exE conjE) (auto split: if_splits option.splits simp: bind_result_eq_Inr)
next
  assume ?R
  then show ?L
    unfolding encode_def
    by (elim exE conjE) (cases raw, auto split: if_splits option.splits)
qed

lemma decode_metadata_from_table:
  assumes "decode e raw_msg deserializer = Inr m'"
  shows "case metadata m' of None \<Rightarrow> True
         | Some md \<Rightarrow> type_of md = metadata_type_for (msgtype m')"
proof (cases "metadata m'")
  case None
  then show ?thesis by simp
next
  case (Some md)
  from assms obtain meta where
    "TupleEncodingMixin_decode e (metadata_type_for (msgtype m')) meta = Inr (metadata m')"
    unfolding decode_Inr_iff by blast
  with Some have "type_of md = metadata_type_for (msgtype m')"
    by (simp add: TupleEncodingMixin_decode_type_of)
  with Some show ?thesis by simp
qed

lemma RPCMessageTypes_call_Inr:
  "RPCMessageTypes_call v = Inr t \<Longrightarrow> int_value v = Some (int_of t)"
  by (auto simp: RPCMessageTypes_call_def split: option.splits if_splits)

lemma decode_msgtype_from_header:
  assumes "decode e raw_msg deserializer = Inr m'"
    and "munpackb e (PBytes (fst raw_msg)) = Inr header"
    and "py_getitem header ''type'' = Inr type_field"
  shows "int_value type_field = Some (int_of (msgtype m'))"
proof -
  from assms have "RPCMessageTypes_call type_field = Inr (msgtype m')"
    unfolding decode_Inr_iff by auto
  then show ?thesis by (rule RPCMessageTypes_call_Inr)
qed

lemma RPCMessageTypes_call_int_of [simp]:
  "RPCMessageTypes_call (PInt (int_of t)) = Inr t"
  by (cases t) (simp_all add: RPCMessageTypes_call_def)

lemma py_getitem_header_of [simp]:
  "py_getitem (header_of m c) ''type'' = Inr (PInt (int_of (msgtype m)))"
  "py_getitem (header_of m c) ''meth'' = Inr (method_name m)"
  "py_getitem (header_of m c) ''okey'' = Inr (order_key m)"
  "py_getitem (header_of m c) ''seq'' = Inr (seq_id m)"
  "py_getitem (header_of m c) ''zip'' = Inr (PBool c)"
  by (simp_all add: header_of_def)

lemma TupleEncodingMixin_roundtrip:
  assumes "mpackb e (PList (field_values md)) = Inr meta"
    and "meta \<noteq> []"
    and "munpackb e (PBytes meta) = Inr unpacked"
    and "py_star unpacked = Inr (field_values md)"
  shows "TupleEncodingMixin_encode e md = Inr meta"
    and "TupleEncodingMixin_decode e (type_of md) (PBytes meta) = Inr (Some md)"
  using assms
  by (simp_all add: TupleEncodingMixin_encode_def TupleEncodingMixin_decode_def
        new_metadata_field_values)

lemma new_metadata_Inl:
  "new_metadata cls args = Inl err \<Longrightarrow> err = TypeError"
  by (induction cls args rule: new_metadata.induct) auto

lemma new_metadata_Inr_iff:
  "new_metadata cls args = Inr md \<longleftrightarrow> type_of md = cls \<and> field_values md = args"
  by (induction cls args rule: new_metadata.induct) (cases md; auto)+

lemma new_metadata_Inl_iff:
  "new_metadata cls args = Inl TypeError \<longleftrightarrow> length args \<noteq> field_count cls"
  apply (induction cls args rule: new_metadata.induct)
                   apply auto
  subgoal for cls by (cases cls) simp_all
  subgoal for cls ve by (cases cls) simp_all
  done

section \<open>Decoding an empty metadata buffer\<close>

text \<open>
  Claim C10. For every message type, also those whose class in the table has fields
  (STREAM, FAILURE, ERROR), a message whose \<^verbatim>\<open>meta\<close> entry is the empty bytes object
  decodes successfully, provided the rest of the two frames decodes, and the decoded
  message has no metadata (None): neither an instance of the class nor an error. The
  metadata step itself cannot fail on the empty buffer.
\<close>

theorem empty_metadata_decodes_to_None:
  assumes "munpackb e (PBytes (fst raw_msg)) = Inr header"
    and "py_getitem header ''type'' = Inr type_field"
    and "RPCMessageTypes_call type_field = Inr mtype"
    and "py_getitem header ''zip'' = Inr compressed"
    and "(if py_bool compressed then
            (case snappy e of None \<Rightarrow> Inl ConfigurationError
             | Some lib \<Rightarrow> decompress lib (snd raw_msg))
          else Inr (snd raw_msg)) = Inr raw_data"
    and "munpackb e (PBytes raw_data) = Inr data"
    and "py_getitem data ''meta'' = Inr (PBytes [])"
    and "py_getitem data ''body'' = Inr body_field"
    and "(if mtype \<in> {FUNCTION, RESULT} then deserializer body_field
          else Inr body_field) = Inr b"
    and "py_getitem header ''meth'' = Inr meth"
    and "py_getitem header ''okey'' = Inr okey"
    and "py_getitem header ''seq'' = Inr seq"
  shows "TupleEncodingMixin_decode e (metadata_type_for mtype) (PBytes []) = Inr None \<and>
         decode e raw_msg deserializer =
           Inr \<lparr>msgtype = mtype, method_name = meth, order_key = okey, seq_id = seq,
                metadata = None, body = b\<rparr>"
proof
  show "TupleEncodingMixin_decode e (metadata_type_for mtype) (PBytes []) = Inr None"
    by (rule TupleEncodingMixin_decode_empty)
  show "decode e raw_msg deserializer =
           Inr \<lparr>msgtype = mtype, method_name = meth, order_key = okey, seq_id = seq,
                metadata = None, body = b\<rparr>"
    unfolding decode_def using assms
    by (simp add: TupleEncodingMixin_decode_empty)
qed

theorem empty_metadata_decodes_to_None_witness:
  "TupleEncodingMixin_decode plain_env (metadata_type_for FAILURE) (PBytes []) = Inr None \<and>
   decode plain_env
     ([0x85, 0xa4, 0x74, 0x79, 0x70, 0x65, 0x03, 0xa4, 0x6d, 0x65, 0x74, 0x68, 0xa1, 0x66,
       0xa4, 0x6f, 0x6b, 0x65, 0x79, 0xa0, 0xa3, 0x73, 0x65, 0x71, 0x01, 0xa3, 0x7a, 0x69,
       0x70, 0xc2],
      [0x82, 0xa4, 0x6d, 0x65, 0x74, 0x61, 0xc4, 0x00, 0xa4, 0x62, 0x6f, 0x64, 0x79, 0xc0])
     ex_deserializer =
   Inr \<lparr>msgtype = FAILURE, method_name = PStr ''f'', order_key = PStr [], seq_id = PInt 1,
        metadata = None, body = PNone\<rparr>"
  by (rule empty_metadata_decodes_to_None
        [where header = failure_header and type_field = "PInt 3" and compressed = "PBool False"
           and data = bare_data and body_field = PNone
           and raw_data = "[0x82, 0xa4, 0x6d, 0x65, 0x74, 0x61, 0xc4, 0x00, 0xa4, 0x62, 0x6f,
                            0x64, 0x79, 0xc0]"])
     code_simp+

section \<open>Unknown message types\<close>

text \<open>
  Claim C9. When the header frame unpacks to a dictionary whose \<^verbatim>\<open>type\<close> entry equals
  none of the six member values 0 to 5, \<open>decode\<close> raises ValueError (from the
  enumeration's lookup) and returns no message, whatever the body frame holds.
\<close>

theorem unknown_message_type_rejected:
  assumes "munpackb e (PBytes (fst raw_msg)) = Inr header"
    and "py_getitem header ''type'' = Inr type_field"
    and "int_value type_field \<notin> Some ` {0, 1, 2, 3, 4, 5}"
  shows "decode e raw_msg deserializer = Inl ValueError"
proof -
  from assms(3) have "RPCMessageTypes_call type_field = Inl ValueError"
    by (auto simp: RPCMessageTypes_call_def split: option.splits)
  with assms(1,2) show ?thesis
    by (simp add: decode_def)
qed

theorem unknown_message_type_rejected_witness:
  "decode plain_env (unknown_type_frame, []) ex_deserializer = Inl ValueError"
proof (rule unknown_message_type_rejected
         [where header = unknown_type_header and type_field = "PInt 9"])
  show "munpackb plain_env (PBytes (fst (unknown_type_frame, []))) = Inr unknown_type_header"
    by code_simp
  show "py_getitem unknown_type_header ''type'' = Inr (PInt 9)"
    by code_simp
  show "int_value (PInt 9) \<notin> Some ` {0, 1, 2, 3, 4, 5}"
    by simp
qed

section \<open>The reply builders\<close>

text \<open>
  Claim C6. Each of \<open>result\<close>, \<open>failure\<close>, \<open>error\<close> and \<open>cancel\<close> copies
  method, order key and sequence id from the request and sets the type to RESULT,
  FAILURE, ERROR and CANCEL. \<open>result\<close> carries the field-less ResultMetadata and the
  given body; \<open>failure\<close> and \<open>error\<close>, called while an exception is handled, carry
  ErrorMetadata with the exception class's name and the formatted traceback, and the body
  None; \<open>cancel\<close> carries the field-less NullMetadata and the body None.
\<close>

theorem builders_copy_request_id:
  "result request result_body =
     \<lparr>msgtype = RESULT, method_name = method_name request, order_key = order_key request,
      seq_id = seq_id request, metadata = Some ResultMetadata, body = result_body\<rparr> \<and>
   failure (Some (name, tb)) request =
     Inr \<lparr>msgtype = FAILURE, method_name = method_name request,
          order_key = order_key request, seq_id = seq_id request,
          metadata = Some (ErrorMetadata (PStr name) (PStr tb)), body = PNone\<rparr> \<and>
   error (Some (name, tb)) request =
     Inr \<lparr>msgtype = ERROR, method_name = method_name request,
          order_key = order_key request, seq_id = seq_id request,
          metadata = Some (ErrorMetadata (PStr name) (PStr tb)), body = PNone\<rparr> \<and>
   cancel request =
     \<lparr>msgtype = CANCEL, method_name = method_name request, order_key = order_key request,
      seq_id = seq_id request, metadata = Some NullMetadata, body = PNone\<rparr> \<and>
   request_id (result request result_body) = request_id request \<and>
   request_id (cancel request) = request_id request \<and>
   field_values ResultMetadata = [] \<and> field_values NullMetadata = []"
  by (simp add: result_def failure_def error_def cancel_def request_id_def)

section \<open>The header frame\<close>

text \<open>
  Claim C8. For any serializer and either value of the compress flag, \<open>encode\<close>
  returns a pair as soon as its steps succeed, and the first frame of every pair it
  returns is what the packer returns for the dictionary with exactly the entries type,
  meth, okey, seq and zip, taken from the message's type value, method, order key,
  sequence id and the flag. The compressor is applied to the second frame only: the
  first frame is the packer's output itself also when the flag is set.
\<close>

theorem header_frame_is_packed_header:
  "(encode e m serializer c = Inr raw_msg \<longrightarrow>
      mpackb e
        (PDict [(PStr ''type'', PInt (int_of (msgtype m))),
                (PStr ''meth'', method_name m),
                (PStr ''okey'', order_key m),
                (PStr ''seq'', seq_id m),
                (PStr ''zip'', PBool c)]) = Inr (fst raw_msg)) \<and>
   ((case metadata m of None \<Rightarrow> Inr [] | Some md \<Rightarrow> TupleEncodingMixin_encode e md)
      = Inr meta \<longrightarrow>
    mpackb e
      (PDict [(PStr ''type'', PInt (int_of (msgtype m))),
              (PStr ''meth'', method_name m),
              (PStr ''okey'', order_key m),
              (PStr ''seq'', seq_id m),
              (PStr ''zip'', PBool c)]) = Inr serialized_header \<longrightarrow>
    (if msgtype m \<in> {FUNCTION, RESULT} then serializer (body m) else Inr (body m))
      = Inr b \<longrightarrow>
    mpackb e (PDict [(PStr ''meta'', PBytes meta), (PStr ''body'', b)])
      = Inr serialized_data \<longrightarrow>
    (if c then
       (case snappy e of None \<Rightarrow> False
        | Some lib \<Rightarrow> compress lib serialized_data = Inr wire)
     else wire = serialized_data) \<longrightarrow>
    encode e m serializer c = Inr (serialized_header, wire))"
proof (intro conjI impI)
  assume "encode e m serializer c = Inr raw_msg"
  then show "mpackb e
        (PDict [(PStr ''type'', PInt (int_of (msgtype m))),
                (PStr ''meth'', method_name m),
                (PStr ''okey'', order_key m),
                (PStr ''seq'', seq_id m),
                (PStr ''zip'', PBool c)]) = Inr (fst raw_msg)"
    unfolding encode_Inr_iff header_of_def by blast
next
  assume "(case metadata m of None \<Rightarrow> Inr [] | Some md \<Rightarrow> TupleEncodingMixin_encode e md)
      = Inr meta"
    and "mpackb e
      (PDict [(PStr ''type'', PInt (int_of (msgtype m))),
              (PStr ''meth'', method_name m),
              (PStr ''okey'', order_key m),
              (PStr ''seq'', seq_id m),
              (PStr ''zip'', PBool c)]) = Inr serialized_header"
    and "(if msgtype m \<in> {FUNCTION, RESULT} then serializer (body m) else Inr (body m))
      = Inr b"
    and "mpackb e (PDict [(PStr ''meta'', PBytes meta), (PStr ''body'', b)])
      = Inr serialized_data"
    and "if c then
       (case snappy e of None \<Rightarrow> False
        | Some lib \<Rightarrow> compress lib serialized_data = Inr wire)
     else wire = serialized_data"
  then show "encode e m serializer c = Inr (serialized_header, wire)"
    unfolding encode_Inr_iff header_of_def
    by (auto split: if_splits option.splits)
qed

theorem header_frame_is_packed_header_witness:
  "encode snappy_env stream_msg ex_serializer True =
     Inr ([0x85, 0xa4, 0x74, 0x79, 0x70, 0x65, 0x01, 0xa4, 0x6d, 0x65, 0x74, 0x68, 0xa4, 0x66,
           0x65, 0x65, 0x64, 0xa4, 0x6f, 0x6b, 0x65, 0x79, 0xa1, 0x6b, 0xa3, 0x73, 0x65, 0x71,
           0x07, 0xa3, 0x7a, 0x69, 0x70, 0xc3],
          snd zipped_stream_frames) \<and>
   fix_pack
     (PDict [(PStr ''type'', PInt 1), (PStr ''meth'', PStr ''feed''),
             (PStr ''okey'', PStr ''k''), (PStr ''seq'', PInt 7), (PStr ''zip'', PBool True)]) =
   Inr [0x85, 0xa4, 0x74, 0x79, 0x70, 0x65, 0x01, 0xa4, 0x6d, 0x65, 0x74, 0x68, 0xa4, 0x66,
        0x65, 0x65, 0x64, 0xa4, 0x6f, 0x6b, 0x65, 0x79, 0xa1, 0x6b, 0xa3, 0x73, 0x65, 0x71,
        0x07, 0xa3, 0x7a, 0x69, 0x70, 0xc3]"
proof -
  note T = header_frame_is_packed_header
    [where e = snappy_env and m = stream_msg and serializer = ex_serializer and c = True
       and meta = "[0x92, 0xa3, 0x72, 0x65, 0x73, 0x03]"
       and serialized_header =
         "[0x85, 0xa4, 0x74, 0x79, 0x70, 0x65, 0x01, 0xa4, 0x6d, 0x65, 0x74, 0x68, 0xa4, 0x66,
           0x65, 0x65, 0x64, 0xa4, 0x6f, 0x6b, 0x65, 0x79, 0xa1, 0x6b, 0xa3, 0x73, 0x65, 0x71,
           0x07, 0xa3, 0x7a, 0x69, 0x70, 0xc3]"
       and b = "PBytes [1, 2, 3]" and serialized_data = "snd stream_frames"
       and wire = "snd zipped_stream_frames"
       and raw_msg =
         "([0x85, 0xa4, 0x74, 0x79, 0x70, 0x65, 0x01, 0xa4, 0x6d, 0x65, 0x74, 0x68, 0xa4, 0x66,
            0x65, 0x65, 0x64, 0xa4, 0x6f, 0x6b, 0x65, 0x79, 0xa1, 0x6b, 0xa3, 0x73, 0x65, 0x71,
            0x07, 0xa3, 0x7a, 0x69, 0x70, 0xc3],
           snd zipped_stream_frames)"]
  have meta: "(case metadata stream_msg of None \<Rightarrow> Inr []
               | Some md \<Rightarrow> TupleEncodingMixin_encode snappy_env md) =
      Inr [0x92, 0xa3, 0x72, 0x65, 0x73, 0x03]"
    by code_simp
  have hdr: "mpackb snappy_env
      (PDict [(PStr ''type'', PInt (int_of (msgtype stream_msg))),
              (PStr ''meth'', method_name stream_msg),
              (PStr ''okey'', order_key stream_msg),
              (PStr ''seq'', seq_id stream_msg),
              (PStr ''zip'', PBool True)]) =
      Inr [0x85, 0xa4, 0x74, 0x79, 0x70, 0x65, 0x01, 0xa4, 0x6d, 0x65, 0x74, 0x68, 0xa4, 0x66,
           0x65, 0x65, 0x64, 0xa4, 0x6f, 0x6b, 0x65, 0x79, 0xa1, 0x6b, 0xa3, 0x73, 0x65, 0x71,
           0x07, 0xa3, 0x7a, 0x69, 0x70, 0xc3]"
    by code_simp
  have bd: "(if msgtype stream_msg \<in> {FUNCTION, RESULT} then ex_serializer (body stream_msg)
             else Inr (body stream_msg)) = Inr (PBytes [1, 2, 3])"
    by code_simp
  have dat: "mpackb snappy_env
       (PDict [(PStr ''meta'', PBytes [0x92, 0xa3, 0x72, 0x65, 0x73, 0x03]),
               (PStr ''body'', PBytes [1, 2, 3])]) = Inr (snd stream_frames)"
    by code_simp
  have zp: "if True then
       (case snappy snappy_env of None \<Rightarrow> False
        | Some lib \<Rightarrow> compress lib (snd stream_frames) = Inr (snd zipped_stream_frames))
     else snd zipped_stream_frames = snd stream_frames"
    by code_simp
  from T meta hdr bd dat zp have enc: "encode snappy_env stream_msg ex_serializer True =
     Inr ([0x85, 0xa4, 0x74, 0x79, 0x70, 0x65, 0x01, 0xa4, 0x6d, 0x65, 0x74, 0x68, 0xa4, 0x66,
           0x65, 0x65, 0x64, 0xa4, 0x6f, 0x6b, 0x65, 0x79, 0xa1, 0x6b, 0xa3, 0x73, 0x65, 0x71,
           0x07, 0xa3, 0x7a, 0x69, 0x70, 0xc3],
          snd zipped_stream_frames)"
    by blast
  with T have "mpackb snappy_env
      (PDict [(PStr ''type'', PInt (int_of (msgtype stream_msg))),
              (PStr ''meth'', method_name stream_msg),
              (PStr ''okey'', order_key stream_msg),
              (PStr ''seq'', seq_id stream_msg),
              (PStr ''zip'', PBool True)]) =
      Inr (fst ([0x85, 0xa4, 0x74, 0x79, 0x70, 0x65, 0x01, 0xa4, 0x6d, 0x65, 0x74, 0x68, 0xa4,
            0x66, 0x65, 0x65, 0x64, 0xa4, 0x6f, 0x6b, 0x65, 0x79, 0xa1, 0x6b, 0xa3, 0x73, 0x65,
            0x71, 0x07, 0xa3, 0x7a, 0x69, 0x70, 0xc3],
           snd zipped_stream_frames))"
    by blast
  with enc show ?thesis
    by (simp add: snappy_env_def stream_msg_def)
qed

section \<open>The type-to-class table\<close>

text \<open>
  Claim C7. The table has six entries; indices 0 to 5 hold the classes FunctionMetadata,
  StreamMetadata, ResultMetadata, ErrorMetadata, ErrorMetadata and NullMetadata, so
  FAILURE and ERROR share the class ErrorMetadata while their type values differ.
  Whenever \<open>decode\<close> returns a message, its metadata, when present, is an instance of
  the class the table holds at the index of the message's type, and that type is the
  member whose value the header's \<^verbatim>\<open>type\<close> entry equals: a FAILURE and an ERROR reply
  stay apart by their type.
\<close>

theorem metadata_class_from_table:
  "length metadata_types = 6 \<and>
   metadata_types ! 0 = FunctionMetadata_cls \<and>
   metadata_types ! 1 = StreamMetadata_cls \<and>
   metadata_types ! 2 = ResultMetadata_cls \<and>
   metadata_types ! 3 = ErrorMetadata_cls \<and>
   metadata_types ! 4 = ErrorMetadata_cls \<and>
   metadata_types ! 5 = NullMetadata_cls \<and>
   metadata_types ! nat (int_of FAILURE) = metadata_types ! nat (int_of ERROR) \<and>
   int_of FAILURE \<noteq> int_of ERROR \<and>
   (decode e raw_msg deserializer = Inr m' \<longrightarrow>
      (case metadata m' of
         None \<Rightarrow> True
       | Some md \<Rightarrow> type_of md = metadata_types ! nat (int_of (msgtype m'))) \<and>
      (\<forall>header type_field.
         munpackb e (PBytes (fst raw_msg)) = Inr header \<longrightarrow>
         py_getitem header ''type'' = Inr type_field \<longrightarrow>
         int_value type_field = Some (int_of (msgtype m'))))"
proof -
  have table: "length metadata_types = 6 \<and>
     metadata_types ! 0 = FunctionMetadata_cls \<and>
     metadata_types ! 1 = StreamMetadata_cls \<and>
     metadata_types ! 2 = ResultMetadata_cls \<and>
     metadata_types ! 3 = ErrorMetadata_cls \<and>
     metadata_types ! 4 = ErrorMetadata_cls \<and>
     metadata_types ! 5 = NullMetadata_cls"
    by (simp add: metadata_types_def)
  have shared: "metadata_types ! nat (int_of FAILURE) = metadata_types ! nat (int_of ERROR)"
    by (simp add: metadata_types_def)
  have tags: "int_of FAILURE \<noteq> int_of ERROR"
    by simp
  have dec: "decode e raw_msg deserializer = Inr m' \<longrightarrow>
      (case metadata m' of
         None \<Rightarrow> True
       | Some md \<Rightarrow> type_of md = metadata_types ! nat (int_of (msgtype m'))) \<and>
      (\<forall>header type_field.
         munpackb e (PBytes (fst raw_msg)) = Inr header \<longrightarrow>
         py_getitem header ''type'' = Inr type_field \<longrightarrow>
         int_value type_field = Some (int_of (msgtype m')))"
  proof (intro impI conjI allI)
    assume d: "decode e raw_msg deserializer = Inr m'"
    from decode_metadata_from_table [OF d]
    show "case metadata m' of
            None \<Rightarrow> True
          | Some md \<Rightarrow> type_of md = metadata_types ! nat (int_of (msgtype m'))"
      unfolding metadata_type_for_def .
  next
    fix header type_field
    assume "decode e raw_msg deserializer = Inr m'"
      and "munpackb e (PBytes (fst raw_msg)) = Inr header"
      and "py_getitem header ''type'' = Inr type_field"
    then show "int_value type_field = Some (int_of (msgtype m'))"
      by (rule decode_msgtype_from_header)
  qed
  from table shared tags dec show ?thesis by blast
qed

theorem metadata_class_from_table_witness:
  "decode plain_env error_reply_frames ex_deserializer = Inr error_reply \<and>
   type_of (ErrorMetadata (PStr ''E'') (PStr ''tb'')) = metadata_types ! 4 \<and>
   int_value (PInt 4) = Some (int_of ERROR)"
proof -
  have dec: "decode plain_env error_reply_frames ex_deserializer = Inr error_reply"
    by code_simp
  have hdr: "munpackb plain_env (PBytes (fst error_reply_frames)) = Inr error_reply_header"
    by code_simp
  have ty: "py_getitem error_reply_header ''type'' = Inr (PInt 4)"
    by code_simp
  from metadata_class_from_table
    [of plain_env error_reply_frames ex_deserializer error_reply] dec hdr ty
  show ?thesis
    by (simp add: error_reply_def)
qed

section \<open>Field-less metadata on the wire\<close>

text \<open>
  Claim C4 says that the field-less classes encode to a zero-byte buffer and that a
  zero-length metadata buffer of a RESULT, FAILURE or ERROR message decodes to an
  instance. The code does neither. With the example packer, the zero-length buffer
  decodes to None under the table's class of each of the three types, and a RESULT
  message whose \<^verbatim>\<open>meta\<close> entry is empty decodes to a message without metadata.
\<close>

theorem empty_variant_decoding_counterexample:
  "TupleEncodingMixin_decode plain_env (metadata_type_for RESULT) (PBytes []) = Inr None \<and>
   TupleEncodingMixin_decode plain_env (metadata_type_for FAILURE) (PBytes []) = Inr None \<and>
   TupleEncodingMixin_decode plain_env (metadata_type_for ERROR) (PBytes []) = Inr None \<and>
   decode plain_env result_frames ex_deserializer =
     Inr \<lparr>msgtype = RESULT, method_name = PStr ''f'', order_key = PStr [], seq_id = PInt 1,
          metadata = None, body = PInt 5\<rparr>"
  by code_simp

text \<open>
  Claim C4, amended. A field-less instance (FunctionMetadata, ResultMetadata,
  NullMetadata) encodes to what the packer returns for the empty list of field values. A
  zero-length buffer decodes to None under every class, so a buffer that decodes to an
  instance is never empty. The packed empty list decodes back to the field-less instance
  of the class whenever it is not empty and the unpacker returns an empty sequence for
  it.
\<close>

theorem empty_variant_encoding:
  "TupleEncodingMixin_encode e FunctionMetadata = mpackb e (PList []) \<and>
   TupleEncodingMixin_encode e ResultMetadata = mpackb e (PList []) \<and>
   TupleEncodingMixin_encode e NullMetadata = mpackb e (PList []) \<and>
   TupleEncodingMixin_decode e cls (PBytes []) = Inr None \<and>
   (TupleEncodingMixin_decode e cls (PBytes b) = Inr (Some md) \<longrightarrow> b \<noteq> []) \<and>
   (mpackb e (PList []) = Inr b' \<longrightarrow> b' \<noteq> [] \<longrightarrow>
    munpackb e (PBytes b') = Inr unpacked \<longrightarrow> py_star unpacked = Inr [] \<longrightarrow>
      TupleEncodingMixin_decode e FunctionMetadata_cls (PBytes b') = Inr (Some FunctionMetadata) \<and>
      TupleEncodingMixin_decode e ResultMetadata_cls (PBytes b') = Inr (Some ResultMetadata) \<and>
      TupleEncodingMixin_decode e NullMetadata_cls (PBytes b') = Inr (Some NullMetadata))"
  by (auto simp: TupleEncodingMixin_encode_def TupleEncodingMixin_decode_def)

theorem empty_variant_encoding_witness:
  "TupleEncodingMixin_encode plain_env ResultMetadata = Inr [0x90] \<and>
   TupleEncodingMixin_decode plain_env ResultMetadata_cls (PBytes [0x90]) = Inr (Some ResultMetadata) \<and>
   TupleEncodingMixin_decode plain_env ResultMetadata_cls (PBytes []) = Inr None"
proof -
  have p: "mpackb plain_env (PList []) = Inr [0x90]"
    by code_simp
  have u: "munpackb plain_env (PBytes [0x90]) = Inr (PTuple [])"
    by code_simp
  have d: "TupleEncodingMixin_decode plain_env ResultMetadata_cls (PBytes [0x90]) =
      Inr (Some ResultMetadata)"
    by code_simp
  from empty_variant_encoding
    [of plain_env ResultMetadata_cls "[0x90]" ResultMetadata "[0x90]" "PTuple []"] p u d
  show ?thesis
    by simp
qed

section \<open>The body and the value codec\<close>

text \<open>
  Claim C5. \<open>encode\<close> returns a pair exactly when its steps succeed, where the
  \<^verbatim>\<open>body\<close> entry of the packed dictionary is what the serializer returned for the
  message's body if the type is FUNCTION or RESULT, and the body itself for every other
  type. For FUNCTION and RESULT an exception of the serializer is the outcome of
  \<open>encode\<close>; for the other types the outcome does not depend on the serializer at
  all. \<open>decode\<close> returns a message exactly when its steps succeed, where the message's
  body is what the deserializer returned for the \<^verbatim>\<open>body\<close> entry of the unpacked second
  frame if the type is FUNCTION or RESULT, and the entry itself otherwise. For FUNCTION
  and RESULT an exception of the deserializer is the outcome of \<open>decode\<close>; for the
  other types any other deserializer gives the same message.
\<close>

theorem body_codec_only_for_function_and_result:
  "(encode e m serializer c = Inr raw_msg \<longleftrightarrow>
      (\<exists>meta b packed.
         (case metadata m of None \<Rightarrow> Inr [] | Some md \<Rightarrow> TupleEncodingMixin_encode e md)
           = Inr meta \<and>
         mpackb e (header_of m c) = Inr (fst raw_msg) \<and>
         (if msgtype m \<in> {FUNCTION, RESULT} then serializer (body m) = Inr b
          else b = body m) \<and>
         mpackb e (PDict [(PStr ''meta'', PBytes meta), (PStr ''body'', b)]) = Inr packed \<and>
         (if c then
            (case snappy e of None \<Rightarrow> False
             | Some lib \<Rightarrow> compress lib packed = Inr (snd raw_msg))
          else snd raw_msg = packed))) \<and>
   (msgtype m \<notin> {FUNCTION, RESULT} \<longrightarrow>
      encode e m serializer c = encode e m serializer' c) \<and>
   (msgtype m \<in> {FUNCTION, RESULT} \<longrightarrow>
    (case metadata m of None \<Rightarrow> Inr [] | Some md \<Rightarrow> TupleEncodingMixin_encode e md)
      = Inr meta0 \<longrightarrow>
    mpackb e (header_of m c) = Inr header0 \<longrightarrow>
    serializer (body m) = Inl err \<longrightarrow>
      encode e m serializer c = Inl err) \<and>
   (decode e frames deserializer = Inr m' \<longleftrightarrow>
      (\<exists>header type_field compressed raw_data data meta_field body_field.
         munpackb e (PBytes (fst frames)) = Inr header \<and>
         py_getitem header ''type'' = Inr type_field \<and>
         RPCMessageTypes_call type_field = Inr (msgtype m') \<and>
         py_getitem header ''zip'' = Inr compressed \<and>
         (if py_bool compressed then
            (case snappy e of None \<Rightarrow> Inl ConfigurationError
             | Some lib \<Rightarrow> decompress lib (snd frames))
          else Inr (snd frames)) = Inr raw_data \<and>
         munpackb e (PBytes raw_data) = Inr data \<and>
         py_getitem data ''meta'' = Inr meta_field \<and>
         TupleEncodingMixin_decode e (metadata_type_for (msgtype m')) meta_field =
           Inr (metadata m') \<and>
         py_getitem data ''body'' = Inr body_field \<and>
         (if msgtype m' \<in> {FUNCTION, RESULT} then deserializer body_field = Inr (body m')
          else body m' = body_field) \<and>
         py_getitem header ''meth'' = Inr (method_name m') \<and>
         py_getitem header ''okey'' = Inr (order_key m') \<and>
         py_getitem header ''seq'' = Inr (seq_id m'))) \<and>
   (decode e frames deserializer = Inr m' \<longrightarrow> msgtype m' \<notin> {FUNCTION, RESULT} \<longrightarrow>
      decode e frames deserializer' = Inr m') \<and>
   (munpackb e (PBytes (fst frames)) = Inr header1 \<longrightarrow>
    py_getitem header1 ''type'' = Inr type_field1 \<longrightarrow>
    RPCMessageTypes_call type_field1 = Inr mtype1 \<longrightarrow>
    mtype1 \<in> {FUNCTION, RESULT} \<longrightarrow>
    py_getitem header1 ''zip'' = Inr compressed1 \<longrightarrow>
    (if py_bool compressed1 then
       (case snappy e of None \<Rightarrow> Inl ConfigurationError
        | Some lib \<Rightarrow> decompress lib (snd frames))
     else Inr (snd frames)) = Inr raw_data1 \<longrightarrow>
    munpackb e (PBytes raw_data1) = Inr data1 \<longrightarrow>
    py_getitem data1 ''meta'' = Inr meta_field1 \<longrightarrow>
    TupleEncodingMixin_decode e (metadata_type_for mtype1) meta_field1 = Inr md1 \<longrightarrow>
    py_getitem data1 ''body'' = Inr body_field1 \<longrightarrow>
    deserializer body_field1 = Inl err1 \<longrightarrow>
      decode e frames deserializer = Inl err1)"
proof -
  have body_eq: "\<And>t (f :: pyval \<Rightarrow> error + pyval) x y.
      ((if t \<in> {FUNCTION, RESULT} then f x else Inr x) = Inr y) =
      (if t \<in> {FUNCTION, RESULT} then f x = Inr y else y = x)"
    by auto
  have A: "encode e m serializer c = Inr raw_msg \<longleftrightarrow>
      (\<exists>meta b packed.
         (case metadata m of None \<Rightarrow> Inr [] | Some md \<Rightarrow> TupleEncodingMixin_encode e md)
           = Inr meta \<and>
         mpackb e (header_of m c) = Inr (fst raw_msg) \<and>
         (if msgtype m \<in> {FUNCTION, RESULT} then serializer (body m) = Inr b
          else b = body m) \<and>
         mpackb e (PDict [(PStr ''meta'', PBytes meta), (PStr ''body'', b)]) = Inr packed \<and>
         (if c then
            (case snappy e of None \<Rightarrow> False
             | Some lib \<Rightarrow> compress lib packed = Inr (snd raw_msg))
          else snd raw_msg = packed))"
    unfolding encode_Inr_iff body_eq ..
  have B: "msgtype m \<notin> {FUNCTION, RESULT} \<longrightarrow>
      encode e m serializer c = encode e m serializer' c"
    by (simp add: encode_def)
  have C: "msgtype m \<in> {FUNCTION, RESULT} \<longrightarrow>
    (case metadata m of None \<Rightarrow> Inr [] | Some md \<Rightarrow> TupleEncodingMixin_encode e md)
      = Inr meta0 \<longrightarrow>
    mpackb e (header_of m c) = Inr header0 \<longrightarrow>
    serializer (body m) = Inl err \<longrightarrow>
      encode e m serializer c = Inl err"
    by (simp add: encode_def)
  have D: "decode e frames deserializer = Inr m' \<longleftrightarrow>
      (\<exists>header type_field compressed raw_data data meta_field body_field.
         munpackb e (PBytes (fst frames)) = Inr header \<and>
         py_getitem header ''type'' = Inr type_field \<and>
         RPCMessageTypes_call type_field = Inr (msgtype m') \<and>
         py_getitem header ''zip'' = Inr compressed \<and>
         (if py_bool compressed then
            (case snappy e of None \<Rightarrow> Inl ConfigurationError
             | Some lib \<Rightarrow> decompress lib (snd frames))
          else Inr (snd frames)) = Inr raw_data \<and>
         munpackb e (PBytes raw_data) = Inr data \<and>
         py_getitem data ''meta'' = Inr meta_field \<and>
         TupleEncodingMixin_decode e (metadata_type_for (msgtype m')) meta_field =
           Inr (metadata m') \<and>
         py_getitem data ''body'' = Inr body_field \<and>
         (if msgtype m' \<in> {FUNCTION, RESULT} then deserializer body_field = Inr (body m')
          else body m' = body_field) \<and>
         py_getitem header ''meth'' = Inr (method_name m') \<and>
         py_getitem header ''okey'' = Inr (order_key m') \<and>
         py_getitem header ''seq'' = Inr (seq_id m'))"
    unfolding decode_Inr_iff body_eq
    by (meson)
  have E: "decode e frames deserializer = Inr m' \<longrightarrow> msgtype m' \<notin> {FUNCTION, RESULT} \<longrightarrow>
      decode e frames deserializer' = Inr m'"
  proof (intro impI)
    assume "decode e frames deserializer = Inr m'" and "msgtype m' \<notin> {FUNCTION, RESULT}"
    then show "decode e frames deserializer' = Inr m'"
      unfolding decode_Inr_iff by simp
  qed
  have F: "munpackb e (PBytes (fst frames)) = Inr header1 \<longrightarrow>
    py_getitem header1 ''type'' = Inr type_field1 \<longrightarrow>
    RPCMessageTypes_call type_field1 = Inr mtype1 \<longrightarrow>
    mtype1 \<in> {FUNCTION, RESULT} \<longrightarrow>
    py_getitem header1 ''zip'' = Inr compressed1 \<longrightarrow>
    (if py_bool compressed1 then
       (case snappy e of None \<Rightarrow> Inl ConfigurationError
        | Some lib \<Rightarrow> decompress lib (snd frames))
     else Inr (snd frames)) = Inr raw_data1 \<longrightarrow>
    munpackb e (PBytes raw_data1) = Inr data1 \<longrightarrow>
    py_getitem data1 ''meta'' = Inr meta_field1 \<longrightarrow>
    TupleEncodingMixin_decode e (metadata_type_for mtype1) meta_field1 = Inr md1 \<longrightarrow>
    py_getitem data1 ''body'' = Inr body_field1 \<longrightarrow>
    deserializer body_field1 = Inl err1 \<longrightarrow>
      decode e frames deserializer = Inl err1"
    by (simp add: decode_def)
  from A B C D E F show ?thesis by blast
qed

theorem body_codec_only_for_function_and_result_witness:
  "encode plain_env call_msg ex_serializer False = Inr call_frames \<and>
   encode plain_env call_msg raising_codec False = Inl TypeError \<and>
   encode plain_env stream_msg raising_codec False = Inr stream_frames \<and>
   decode plain_env call_frames ex_deserializer = Inr call_msg \<and>
   decode plain_env call_frames raising_codec = Inl TypeError \<and>
   decode plain_env stream_frames raising_codec = Inr stream_msg"
proof -
  have ty: "msgtype call_msg \<in> {FUNCTION, RESULT}" "msgtype stream_msg \<notin> {FUNCTION, RESULT}"
    by (simp_all add: call_msg_def stream_msg_def)
  have meta: "(case metadata call_msg of None \<Rightarrow> Inr []
               | Some md \<Rightarrow> TupleEncodingMixin_encode plain_env md) = Inr [0x90]"
    by code_simp
  have hdr: "mpackb plain_env (header_of call_msg False) = Inr (fst call_frames)"
    by code_simp
  have ser: "if msgtype call_msg \<in> {FUNCTION, RESULT}
             then ex_serializer (body call_msg) = Inr (PBytes [0x92, 0x02, 0x03])
             else PBytes [0x92, 0x02, 0x03] = body call_msg"
    by code_simp
  have dat: "mpackb plain_env
       (PDict [(PStr ''meta'', PBytes [0x90]), (PStr ''body'', PBytes [0x92, 0x02, 0x03])]) =
       Inr (snd call_frames)"
    by code_simp
  have zp: "if False then
              (case snappy plain_env of None \<Rightarrow> False
               | Some lib \<Rightarrow> compress lib (snd call_frames) = Inr (snd call_frames))
            else snd call_frames = snd call_frames"
    by simp
  have ex: "\<exists>meta b packed.
         (case metadata call_msg of None \<Rightarrow> Inr []
          | Some md \<Rightarrow> TupleEncodingMixin_encode plain_env md) = Inr meta \<and>
         mpackb plain_env (header_of call_msg False) = Inr (fst call_frames) \<and>
         (if msgtype call_msg \<in> {FUNCTION, RESULT} then ex_serializer (body call_msg) = Inr b
          else b = body call_msg) \<and>
         mpackb plain_env (PDict [(PStr ''meta'', PBytes meta), (PStr ''body'', b)]) =
           Inr packed \<and>
         (if False then
            (case snappy plain_env of None \<Rightarrow> False
             | Some lib \<Rightarrow> compress lib packed = Inr (snd call_frames))
          else snd call_frames = packed)"
    using meta hdr ser dat zp by blast
  have w1: "encode plain_env call_msg ex_serializer False = Inr call_frames"
    by (rule body_codec_only_for_function_and_result
          [where e = plain_env and m = call_msg and serializer = ex_serializer and c = False
             and raw_msg = call_frames,
           THEN conjunct1, THEN iffD2, OF ex])
  have raises: "raising_codec (body call_msg) = Inl TypeError"
    by (simp add: raising_codec_def)
  have w2: "encode plain_env call_msg raising_codec False = Inl TypeError"
    by (rule body_codec_only_for_function_and_result
          [where e = plain_env and m = call_msg and serializer = raising_codec and c = False,
           THEN conjunct2, THEN conjunct2, THEN conjunct1, rule_format,
           OF ty(1) meta hdr raises])
  have senc: "encode plain_env stream_msg ex_serializer False = Inr stream_frames"
    by code_simp
  from body_codec_only_for_function_and_result
    [where e = plain_env and m = stream_msg and serializer = ex_serializer and c = False
       and serializer' = raising_codec,
     THEN conjunct2, THEN conjunct1, rule_format, OF ty(2)] senc
  have w3: "encode plain_env stream_msg raising_codec False = Inr stream_frames"
    by simp
  have w4: "decode plain_env call_frames ex_deserializer = Inr call_msg"
    by code_simp
  have h1: "munpackb plain_env (PBytes (fst call_frames)) =
      Inr (PDict [(PStr ''type'', PInt 0), (PStr ''meth'', PStr ''add''),
                  (PStr ''okey'', PStr []), (PStr ''seq'', PInt 1),
                  (PStr ''zip'', PBool False)])"
    by code_simp
  have h2: "py_getitem
      (PDict [(PStr ''type'', PInt 0), (PStr ''meth'', PStr ''add''),
              (PStr ''okey'', PStr []), (PStr ''seq'', PInt 1),
              (PStr ''zip'', PBool False)]) ''type'' = Inr (PInt 0)"
    by code_simp
  have h3: "RPCMessageTypes_call (PInt 0) = Inr FUNCTION"
    by code_simp
  have h4: "FUNCTION \<in> {FUNCTION, RESULT}"
    by simp
  have h5: "py_getitem
      (PDict [(PStr ''type'', PInt 0), (PStr ''meth'', PStr ''add''),
              (PStr ''okey'', PStr []), (PStr ''seq'', PInt 1),
              (PStr ''zip'', PBool False)]) ''zip'' = Inr (PBool False)"
    by code_simp
  have h6: "(if py_bool (PBool False) then
       (case snappy plain_env of None \<Rightarrow> Inl ConfigurationError
        | Some lib \<Rightarrow> decompress lib (snd call_frames))
     else Inr (snd call_frames)) = Inr (snd call_frames)"
    by simp
  have h7: "munpackb plain_env (PBytes (snd call_frames)) =
      Inr (PDict [(PStr ''meta'', PBytes [0x90]),
                  (PStr ''body'', PBytes [0x92, 0x02, 0x03])])"
    by code_simp
  have h8: "py_getitem
      (PDict [(PStr ''meta'', PBytes [0x90]),
              (PStr ''body'', PBytes [0x92, 0x02, 0x03])]) ''meta'' = Inr (PBytes [0x90])"
    by code_simp
  have h9: "TupleEncodingMixin_decode plain_env (metadata_type_for FUNCTION) (PBytes [0x90]) =
      Inr (Some FunctionMetadata)"
    by code_simp
  have h10: "py_getitem
      (PDict [(PStr ''meta'', PBytes [0x90]),
              (PStr ''body'', PBytes [0x92, 0x02, 0x03])]) ''body'' =
      Inr (PBytes [0x92, 0x02, 0x03])"
    by code_simp
  have h11: "raising_codec (PBytes [0x92, 0x02, 0x03]) = Inl TypeError"
    by (simp add: raising_codec_def)
  have w5: "decode plain_env call_frames raising_codec = Inl TypeError"
    by (rule body_codec_only_for_function_and_result
          [where e = plain_env and frames = call_frames and deserializer = raising_codec,
           THEN conjunct2, THEN conjunct2, THEN conjunct2, THEN conjunct2, THEN conjunct2,
           rule_format, OF h1 h2 h3 h4 h5 h6 h7 h8 h9 h10 h11])
  have sdec: "decode plain_env stream_frames ex_deserializer = Inr stream_msg"
    by code_simp
  have w6: "decode plain_env stream_frames raising_codec = Inr stream_msg"
    by (rule body_codec_only_for_function_and_result
          [where e = plain_env and frames = stream_frames and deserializer = ex_deserializer
             and deserializer' = raising_codec,
           THEN conjunct2, THEN conjunct2, THEN conjunct2, THEN conjunct2, THEN conjunct1,
           rule_format, OF sdec ty(2)])
  from w1 w2 w3 w4 w5 w6 show ?thesis by blast
qed

section \<open>Mismatched metadata\<close>

text \<open>
  Claim C3 says that a message whose metadata is an instance of another class than the
  one the table holds for its type is rejected by \<open>encode\<close> or handled in a
  documented way, and that decoding the encoded pair never silently reconstructs a
  mismatched variant. The code has no such check. With the example packer, the STREAM
  message that carries ErrorMetadata is encoded without an exception, and decoding the
  pair returns, without an exception, a message that carries StreamMetadata with the same
  two field values.
\<close>

theorem mismatched_metadata_counterexample:
  "metadata mismatched_msg = Some (ErrorMetadata (PStr ''E'') (PStr ''tb'')) \<and>
   type_of (ErrorMetadata (PStr ''E'') (PStr ''tb'')) \<noteq>
     metadata_type_for (msgtype mismatched_msg) \<and>
   encode plain_env mismatched_msg ex_serializer False = Inr mismatched_frames \<and>
   decode plain_env mismatched_frames ex_deserializer = Inr reread_msg \<and>
   metadata reread_msg = Some (StreamMetadata (PStr ''E'') (PStr ''tb'')) \<and>
   reread_msg \<noteq> mismatched_msg"
proof -
  have "encode plain_env mismatched_msg ex_serializer False = Inr mismatched_frames"
    by code_simp
  moreover have "decode plain_env mismatched_frames ex_deserializer = Inr reread_msg"
    by code_simp
  ultimately show ?thesis
    by (simp add: mismatched_msg_def reread_msg_def)
qed

text \<open>
  Claim C3, amended. Take a message whose metadata is an instance of another class than
  the one the table holds for its type, and suppose the collaborators invert each other
  on the values of this message (as for the round trip). Then \<open>encode\<close> does not
  reject the message: it returns the pair with the field values packed in order. Decoding
  that pair calls the table's class for the message's type with these field values: when
  their number is not the number of fields of that class, \<open>decode\<close> raises
  TypeError; otherwise it returns the message with its metadata replaced by the
  instance of the table's class that has the same field values. In neither case does it
  return the message that was encoded.
\<close>

theorem mismatched_metadata_reread:
  assumes mismatch:
      "metadata m = Some md"
      "type_of md \<noteq> metadata_type_for (msgtype m)"
    and fields:
      "mpackb e (PList (field_values md)) = Inr meta"
      "meta \<noteq> []"
      "munpackb e (PBytes meta) = Inr unpacked"
      "py_star unpacked = Inr (field_values md)"
    and header:
      "mpackb e (header_of m c) = Inr serialized_header"
      "munpackb e (PBytes serialized_header) = Inr (header_of m c)"
    and value_codec:
      "if msgtype m \<in> {FUNCTION, RESULT}
       then serializer (body m) = Inr b \<and> deserializer b = Inr (body m)
       else b = body m"
    and data:
      "mpackb e (PDict [(PStr ''meta'', PBytes meta), (PStr ''body'', b)]) = Inr serialized_data"
      "munpackb e (PBytes serialized_data) =
         Inr (PDict [(PStr ''meta'', PBytes meta), (PStr ''body'', b)])"
    and compressor:
      "if c then
         (case snappy e of
            None \<Rightarrow> False
          | Some lib \<Rightarrow>
              compress lib serialized_data = Inr wire \<and>
              decompress lib wire = Inr serialized_data)
       else wire = serialized_data"
  shows "encode e m serializer c = Inr (serialized_header, wire) \<and>
         decode e (serialized_header, wire) deserializer =
           (case new_metadata (metadata_type_for (msgtype m)) (field_values md) of
              Inl err \<Rightarrow> Inl TypeError
            | Inr md' \<Rightarrow> Inr (m\<lparr>metadata := Some md'\<rparr>)) \<and>
         (case new_metadata (metadata_type_for (msgtype m)) (field_values md) of
            Inl err \<Rightarrow> True
          | Inr md' \<Rightarrow>
              type_of md' = metadata_type_for (msgtype m) \<and>
              field_values md' = field_values md \<and> md' \<noteq> md) \<and>
         decode e (serialized_header, wire) deserializer \<noteq> Inr m \<and>
         (decode e (serialized_header, wire) deserializer = Inl TypeError) =
           (length (field_values md) \<noteq> field_count (metadata_type_for (msgtype m)))"
proof -
  have meta_enc: "(case metadata m of None \<Rightarrow> Inr []
                   | Some md \<Rightarrow> TupleEncodingMixin_encode e md) = Inr meta"
    using mismatch(1) fields(1) by (simp add: TupleEncodingMixin_encode_def)
  have body_enc:
    "(if msgtype m \<in> {FUNCTION, RESULT} then serializer (body m) else Inr (body m)) = Inr b"
    using value_codec by (auto split: if_splits)
  have body_dec:
    "(if msgtype m \<in> {FUNCTION, RESULT} then deserializer b else Inr b) = Inr (body m)"
    using value_codec by (auto split: if_splits)
  have enc: "encode e m serializer c = Inr (serialized_header, wire)"
    unfolding encode_Inr_iff
    using meta_enc header(1) body_enc data(1) compressor
    by (auto split: option.splits if_splits)
  have raw: "(if py_bool (PBool c) then
           (case snappy e of None \<Rightarrow> Inl ConfigurationError
            | Some lib \<Rightarrow> decompress lib (snd (serialized_header, wire)))
         else Inr (snd (serialized_header, wire))) = Inr serialized_data"
    using compressor by (auto split: option.splits if_splits)
  have meta_dec:
    "TupleEncodingMixin_decode e (metadata_type_for (msgtype m)) (PBytes meta) =
       bind_result (new_metadata (metadata_type_for (msgtype m)) (field_values md))
         (\<lambda>obj. Inr (Some obj))"
    using fields by (simp add: TupleEncodingMixin_decode_def)
  have dec: "decode e (serialized_header, wire) deserializer =
           (case new_metadata (metadata_type_for (msgtype m)) (field_values md) of
              Inl err \<Rightarrow> Inl TypeError
            | Inr md' \<Rightarrow> Inr (m\<lparr>metadata := Some md'\<rparr>))"
  proof (cases "new_metadata (metadata_type_for (msgtype m)) (field_values md)")
    case (Inl err)
    then have "err = TypeError" by (rule new_metadata_Inl)
    with Inl show ?thesis
      unfolding decode_def
      using header(2) raw data(2) meta_dec
      by simp
  next
    case (Inr md')
    then show ?thesis
      unfolding decode_def
      using header(2) raw data(2) meta_dec body_dec
      by simp
  qed
  have shape: "case new_metadata (metadata_type_for (msgtype m)) (field_values md) of
            Inl err \<Rightarrow> True
          | Inr md' \<Rightarrow>
              type_of md' = metadata_type_for (msgtype m) \<and>
              field_values md' = field_values md \<and> md' \<noteq> md"
    using mismatch(2) by (auto simp: new_metadata_Inr_iff split: sum.splits)
  have ne: "decode e (serialized_header, wire) deserializer \<noteq> Inr m"
  proof
    assume "decode e (serialized_header, wire) deserializer = Inr m"
    with dec obtain md' where
      n: "new_metadata (metadata_type_for (msgtype m)) (field_values md) = Inr md'"
      and eq: "m\<lparr>metadata := Some md'\<rparr> = m"
      by (auto split: sum.splits)
    from eq have "metadata (m\<lparr>metadata := Some md'\<rparr>) = metadata m" by simp
    with mismatch(1) have "md' = md" by simp
    with n mismatch(2) show False by (simp add: new_metadata_Inr_iff)
  qed
  have count: "(decode e (serialized_header, wire) deserializer = Inl TypeError) =
           (length (field_values md) \<noteq> field_count (metadata_type_for (msgtype m)))"
    using dec new_metadata_Inl [of "metadata_type_for (msgtype m)" "field_values md"]
    by (auto simp: new_metadata_Inl_iff [symmetric] split: sum.splits)
  from enc dec shape ne count show ?thesis by blast
qed

theorem mismatched_metadata_reread_witness:
  "encode plain_env mismatched_msg ex_serializer False = Inr mismatched_frames \<and>
   decode plain_env mismatched_frames ex_deserializer =
     Inr (mismatched_msg\<lparr>metadata := Some (StreamMetadata (PStr ''E'') (PStr ''tb''))\<rparr>) \<and>
   encode plain_env mismatched_call_msg ex_serializer False = Inr mismatched_call_frames \<and>
   decode plain_env mismatched_call_frames ex_deserializer = Inl TypeError"
proof -
  have stream:
    "encode plain_env mismatched_msg ex_serializer False =
       Inr (fst mismatched_frames, snd mismatched_frames) \<and>
     decode plain_env (fst mismatched_frames, snd mismatched_frames) ex_deserializer =
       (case new_metadata (metadata_type_for (msgtype mismatched_msg))
               (field_values (ErrorMetadata (PStr ''E'') (PStr ''tb''))) of
          Inl err \<Rightarrow> Inl TypeError
        | Inr md' \<Rightarrow> Inr (mismatched_msg\<lparr>metadata := Some md'\<rparr>)) \<and>
     (case new_metadata (metadata_type_for (msgtype mismatched_msg))
             (field_values (ErrorMetadata (PStr ''E'') (PStr ''tb''))) of
        Inl err \<Rightarrow> True
      | Inr md' \<Rightarrow>
          type_of md' = metadata_type_for (msgtype mismatched_msg) \<and>
          field_values md' = field_values (ErrorMetadata (PStr ''E'') (PStr ''tb'')) \<and>
          md' \<noteq> ErrorMetadata (PStr ''E'') (PStr ''tb'')) \<and>
     decode plain_env (fst mismatched_frames, snd mismatched_frames) ex_deserializer \<noteq>
       Inr mismatched_msg \<and>
     (decode plain_env (fst mismatched_frames, snd mismatched_frames) ex_deserializer =
        Inl TypeError) =
       (length (field_values (ErrorMetadata (PStr ''E'') (PStr ''tb''))) \<noteq>
        field_count (metadata_type_for (msgtype mismatched_msg)))"
    by (rule mismatched_metadata_reread
          [where meta = "[0x92, 0xa1, 0x45, 0xa2, 0x74, 0x62]"
             and unpacked = "PTuple [PStr ''E'', PStr ''tb'']"
             and b = PNone and serialized_data = "snd mismatched_frames"])
       code_simp+
  have call:
    "encode plain_env mismatched_call_msg ex_serializer False =
       Inr (fst mismatched_call_frames, snd mismatched_call_frames) \<and>
     decode plain_env (fst mismatched_call_frames, snd mismatched_call_frames) ex_deserializer =
       (case new_metadata (metadata_type_for (msgtype mismatched_call_msg))
               (field_values (ErrorMetadata (PStr ''E'') (PStr ''tb''))) of
          Inl err \<Rightarrow> Inl TypeError
        | Inr md' \<Rightarrow> Inr (mismatched_call_msg\<lparr>metadata := Some md'\<rparr>)) \<and>
     (case new_metadata (metadata_type_for (msgtype mismatched_call_msg))
             (field_values (ErrorMetadata (PStr ''E'') (PStr ''tb''))) of
        Inl err \<Rightarrow> True
      | Inr md' \<Rightarrow>
          type_of md' = metadata_type_for (msgtype mismatched_call_msg) \<and>
          field_values md' = field_values (ErrorMetadata (PStr ''E'') (PStr ''tb'')) \<and>
          md' \<noteq> ErrorMetadata (PStr ''E'') (PStr ''tb'')) \<and>
     decode plain_env (fst mismatched_call_frames, snd mismatched_call_frames) ex_deserializer \<noteq>
       Inr mismatched_call_msg \<and>
     (decode plain_env (fst mismatched_call_frames, snd mismatched_call_frames) ex_deserializer =
        Inl TypeError) =
       (length (field_values (ErrorMetadata (PStr ''E'') (PStr ''tb''))) \<noteq>
        field_count (metadata_type_for (msgtype mismatched_call_msg)))"
    by (rule mismatched_metadata_reread
          [where meta = "[0x92, 0xa1, 0x45, 0xa2, 0x74, 0x62]"
             and unpacked = "PTuple [PStr ''E'', PStr ''tb'']"
             and b = "PBytes [0x92, 0x02, 0x03]"
             and serialized_data = "snd mismatched_call_frames"])
       code_simp+
  have s: "msgtype mismatched_msg = STREAM" "msgtype mismatched_call_msg = FUNCTION"
    by (simp_all add: mismatched_msg_def mismatched_call_msg_def)
  from stream call show ?thesis
    by (simp add: s)
qed

section \<open>A missing compressor\<close>

text \<open>
  Claim C2 says that without the compressor every \<open>decode\<close> of a pair whose header has
  zip set raises ConfigurationError. The type of the message is looked up before the
  compressor is needed: a header with zip set and the type 9 raises ValueError.
\<close>

theorem missing_compressor_counterexample:
  "\<not> has_snappy plain_env \<and>
   munpackb plain_env (PBytes zipped_unknown_type_frame) =
     Inr (PDict [(PStr ''type'', PInt 9), (PStr ''meth'', PStr ''f''),
                 (PStr ''okey'', PStr []), (PStr ''seq'', PInt 1),
                 (PStr ''zip'', PBool True)]) \<and>
   decode plain_env (zipped_unknown_type_frame, []) ex_deserializer = Inl ValueError"
  by code_simp

text \<open>
  Claim C2, amended. Without the compressor, \<open>encode\<close> with the compress flag never
  returns a pair, and it raises ConfigurationError whenever the steps before the
  compressor succeed (packing of the metadata and the header, serialization of the body,
  packing of the data dictionary). \<open>decode\<close> of a pair whose header unpacks to a
  dictionary with a true \<^verbatim>\<open>zip\<close> entry never returns a message, and it raises
  ConfigurationError whenever the \<^verbatim>\<open>type\<close> entry equals one of the six member values.
  In neither direction is the data handled as if it were not compressed.
\<close>

theorem missing_compressor_raises:
  assumes "\<not> has_snappy e"
  shows "(\<forall>frames. encode e m serializer True \<noteq> Inr frames) \<and>
     ((case metadata m of None \<Rightarrow> Inr [] | Some md \<Rightarrow> TupleEncodingMixin_encode e md)
        = Inr meta \<longrightarrow>
      mpackb e (header_of m True) = Inr serialized_header \<longrightarrow>
      (if msgtype m \<in> {FUNCTION, RESULT} then serializer (body m) else Inr (body m))
        = Inr b \<longrightarrow>
      mpackb e (PDict [(PStr ''meta'', PBytes meta), (PStr ''body'', b)])
        = Inr serialized_data \<longrightarrow>
      encode e m serializer True = Inl ConfigurationError) \<and>
     (munpackb e (PBytes (fst raw_msg)) = Inr header \<longrightarrow>
      py_getitem header ''zip'' = Inr compressed \<longrightarrow>
      py_bool compressed \<longrightarrow>
      (\<forall>m'. decode e raw_msg deserializer \<noteq> Inr m')) \<and>
     (munpackb e (PBytes (fst raw_msg)) = Inr header \<longrightarrow>
      py_getitem header ''type'' = Inr type_field \<longrightarrow>
      int_value type_field \<in> Some ` {0, 1, 2, 3, 4, 5} \<longrightarrow>
      py_getitem header ''zip'' = Inr compressed \<longrightarrow>
      py_bool compressed \<longrightarrow>
      decode e raw_msg deserializer = Inl ConfigurationError)"
proof -
  from assms have none: "snappy e = None"
    by (simp add: has_snappy_def split: option.splits)
  have 1: "\<forall>frames. encode e m serializer True \<noteq> Inr frames"
    using none by (simp add: encode_Inr_iff)
  have 2: "(case metadata m of None \<Rightarrow> Inr [] | Some md \<Rightarrow> TupleEncodingMixin_encode e md)
        = Inr meta \<longrightarrow>
      mpackb e (header_of m True) = Inr serialized_header \<longrightarrow>
      (if msgtype m \<in> {FUNCTION, RESULT} then serializer (body m) else Inr (body m))
        = Inr b \<longrightarrow>
      mpackb e (PDict [(PStr ''meta'', PBytes meta), (PStr ''body'', b)])
        = Inr serialized_data \<longrightarrow>
      encode e m serializer True = Inl ConfigurationError"
    using none by (simp add: encode_def)
  have 3: "munpackb e (PBytes (fst raw_msg)) = Inr header \<longrightarrow>
      py_getitem header ''zip'' = Inr compressed \<longrightarrow>
      py_bool compressed \<longrightarrow>
      (\<forall>m'. decode e raw_msg deserializer \<noteq> Inr m')"
    using none by (auto simp: decode_Inr_iff)
  have 4: "munpackb e (PBytes (fst raw_msg)) = Inr header \<longrightarrow>
      py_getitem header ''type'' = Inr type_field \<longrightarrow>
      int_value type_field \<in> Some ` {0, 1, 2, 3, 4, 5} \<longrightarrow>
      py_getitem header ''zip'' = Inr compressed \<longrightarrow>
      py_bool compressed \<longrightarrow>
      decode e raw_msg deserializer = Inl ConfigurationError"
  proof (intro impI)
    assume h: "munpackb e (PBytes (fst raw_msg)) = Inr header"
      and t: "py_getitem header ''type'' = Inr type_field"
      and v: "int_value type_field \<in> Some ` {0, 1, 2, 3, 4, 5}"
      and z: "py_getitem header ''zip'' = Inr compressed"
      and c: "py_bool compressed"
    from v obtain mtype where "RPCMessageTypes_call type_field = Inr mtype"
      by (auto simp: RPCMessageTypes_call_def)
    with h t z c none show "decode e raw_msg deserializer = Inl ConfigurationError"
      by (simp add: decode_def)
  qed
  from 1 2 3 4 show ?thesis by blast
qed

theorem missing_compressor_raises_witness:
  "encode plain_env stream_msg ex_serializer True = Inl ConfigurationError \<and>
   decode plain_env zipped_stream_frames ex_deserializer = Inl ConfigurationError \<and>
   decode plain_env zipped_stream_frames ex_deserializer \<noteq> Inr stream_msg \<and>
   encode plain_env stream_msg ex_serializer True \<noteq> Inr zipped_stream_frames"
proof -
  have ns: "\<not> has_snappy plain_env"
    by code_simp
  have meta: "(case metadata stream_msg of None \<Rightarrow> Inr []
               | Some md \<Rightarrow> TupleEncodingMixin_encode plain_env md) =
      Inr [0x92, 0xa3, 0x72, 0x65, 0x73, 0x03]"
    by code_simp
  have hdr: "mpackb plain_env (header_of stream_msg True) = Inr (fst zipped_stream_frames)"
    by code_simp
  have bd: "(if msgtype stream_msg \<in> {FUNCTION, RESULT} then ex_serializer (body stream_msg)
             else Inr (body stream_msg)) = Inr (PBytes [1, 2, 3])"
    by code_simp
  have dat: "mpackb plain_env
       (PDict [(PStr ''meta'', PBytes [0x92, 0xa3, 0x72, 0x65, 0x73, 0x03]),
               (PStr ''body'', PBytes [1, 2, 3])]) = Inr (snd stream_frames)"
    by code_simp
  have uh: "munpackb plain_env (PBytes (fst zipped_stream_frames)) = Inr zipped_stream_header"
    by code_simp
  have ty: "py_getitem zipped_stream_header ''type'' = Inr (PInt 1)"
    by code_simp
  have iv: "int_value (PInt 1) \<in> Some ` {0, 1, 2, 3, 4, 5}"
    by simp
  have zp: "py_getitem zipped_stream_header ''zip'' = Inr (PBool True)"
    by code_simp
  have tr: "py_bool (PBool True)"
    by simp
  from missing_compressor_raises [OF ns, of stream_msg ex_serializer
      "[0x92, 0xa3, 0x72, 0x65, 0x73, 0x03]" "fst zipped_stream_frames" "PBytes [1, 2, 3]"
      "snd stream_frames" zipped_stream_frames zipped_stream_header "PBool True"
      ex_deserializer "PInt 1"]
    meta hdr bd dat uh ty iv zp tr
  show ?thesis
    by blast
qed

section \<open>Round trip\<close>

text \<open>
  Claim C1. Let the metadata of a message be absent or an instance of the table's class
  for the message's type. Suppose the unpacker inverts the packer on the three values
  \<open>encode\<close> packs (the field values, where the packed bytes are not empty and are
  unpacked to a sequence of the same values; the header dictionary; the data
  dictionary), the deserializer inverts the serializer on the body when the type is
  FUNCTION or RESULT, and, when compression is asked for, the compressor is present and
  its decompression inverts its compression on the packed data. Then \<open>encode\<close>
  returns a pair and \<open>decode\<close> of that pair returns the message, with and without
  compression.
\<close>

theorem encode_decode_roundtrip:
  assumes variant:
      "case metadata m of
         None \<Rightarrow> meta = []
       | Some md \<Rightarrow>
           type_of md = metadata_type_for (msgtype m) \<and>
           mpackb e (PList (field_values md)) = Inr meta \<and> meta \<noteq> [] \<and>
           (case munpackb e (PBytes meta) of
              Inl err \<Rightarrow> False
            | Inr unpacked \<Rightarrow> py_star unpacked = Inr (field_values md))"
    and header:
      "mpackb e (header_of m c) = Inr serialized_header"
      "munpackb e (PBytes serialized_header) = Inr (header_of m c)"
    and value_codec:
      "if msgtype m \<in> {FUNCTION, RESULT}
       then serializer (body m) = Inr b \<and> deserializer b = Inr (body m)
       else b = body m"
    and data:
      "mpackb e (PDict [(PStr ''meta'', PBytes meta), (PStr ''body'', b)]) = Inr serialized_data"
      "munpackb e (PBytes serialized_data) =
         Inr (PDict [(PStr ''meta'', PBytes meta), (PStr ''body'', b)])"
    and compressor:
      "if c then
         (case snappy e of
            None \<Rightarrow> False
          | Some lib \<Rightarrow>
              compress lib serialized_data = Inr wire \<and>
              decompress lib wire = Inr serialized_data)
       else wire = serialized_data"
  shows "encode e m serializer c = Inr (serialized_header, wire) \<and>
         decode e (serialized_header, wire) deserializer = Inr m"
proof
  have meta_enc: "(case metadata m of None \<Rightarrow> Inr []
                   | Some md \<Rightarrow> TupleEncodingMixin_encode e md) = Inr meta"
    using variant
    by (auto simp: TupleEncodingMixin_encode_def split: option.splits)
  have meta_dec:
    "TupleEncodingMixin_decode e (metadata_type_for (msgtype m)) (PBytes meta) =
       Inr (metadata m)"
  proof (cases "metadata m")
    case None
    with variant show ?thesis
      by (simp add: TupleEncodingMixin_decode_empty)
  next
    case (Some md)
    with variant obtain unpacked where
      "type_of md = metadata_type_for (msgtype m)"
      "mpackb e (PList (field_values md)) = Inr meta" "meta \<noteq> []"
      "munpackb e (PBytes meta) = Inr unpacked" "py_star unpacked = Inr (field_values md)"
      by (auto split: sum.splits)
    with Some TupleEncodingMixin_roundtrip(2) [of e md meta unpacked] show ?thesis
      by simp
  qed
  have body_enc:
    "(if msgtype m \<in> {FUNCTION, RESULT} then serializer (body m) else Inr (body m)) = Inr b"
    using value_codec by (auto split: if_splits)
  have body_dec:
    "(if msgtype m \<in> {FUNCTION, RESULT} then deserializer b else Inr b) = Inr (body m)"
    using value_codec by (auto split: if_splits)
  show "encode e m serializer c = Inr (serialized_header, wire)"
    unfolding encode_Inr_iff
    using meta_enc header(1) body_enc data(1) compressor
    by (auto split: option.splits if_splits)
  have raw: "(if py_bool (PBool c) then
           (case snappy e of None \<Rightarrow> Inl ConfigurationError
            | Some lib \<Rightarrow> decompress lib (snd (serialized_header, wire)))
         else Inr (snd (serialized_header, wire))) = Inr serialized_data"
    using compressor by (auto split: option.splits if_splits)
  show "decode e (serialized_header, wire) deserializer = Inr m"
    unfolding decode_def
    using header(2) raw data(2) meta_dec body_dec
    by simp
qed

theorem encode_decode_roundtrip_witness:
  "encode snappy_env stream_msg ex_serializer True = Inr zipped_stream_frames \<and>
   decode snappy_env zipped_stream_frames ex_deserializer = Inr stream_msg \<and>
   encode plain_env call_msg ex_serializer False = Inr call_frames \<and>
   decode plain_env call_frames ex_deserializer = Inr call_msg \<and>
   encode plain_env bare_failure_msg ex_serializer False = Inr bare_failure_frames \<and>
   decode plain_env bare_failure_frames ex_deserializer = Inr bare_failure_msg"
proof -
  have zipped: "encode snappy_env stream_msg ex_serializer True =
       Inr (fst zipped_stream_frames, snd zipped_stream_frames) \<and>
     decode snappy_env (fst zipped_stream_frames, snd zipped_stream_frames) ex_deserializer =
       Inr stream_msg"
    by (rule encode_decode_roundtrip
          [where meta = "[0x92, 0xa3, 0x72, 0x65, 0x73, 0x03]" and b = "PBytes [1, 2, 3]"
             and serialized_data = "snd stream_frames"])
       code_simp+
  have plain: "encode plain_env call_msg ex_serializer False =
       Inr (fst call_frames, snd call_frames) \<and>
     decode plain_env (fst call_frames, snd call_frames) ex_deserializer = Inr call_msg"
    by (rule encode_decode_roundtrip
          [where meta = "[0x90]" and b = "PBytes [0x92, 0x02, 0x03]"
             and serialized_data = "snd call_frames"])
       code_simp+
  have bare: "encode plain_env bare_failure_msg ex_serializer False =
       Inr (fst bare_failure_frames, snd bare_failure_frames) \<and>
     decode plain_env (fst bare_failure_frames, snd bare_failure_frames) ex_deserializer =
       Inr bare_failure_msg"
    by (rule encode_decode_roundtrip
          [where meta = "[]" and b = PNone and serialized_data = "snd bare_failure_frames"])
       code_simp+
  from zipped plain bare show ?thesis
    by simp
qed

end
